theory Spec2Isabelle
  imports Main "HOL-Library.AList"
begin

section \<open>Text: the string operations the session engine relies on\<close>

text \<open>
  Strings are \<^typ>\<open>string\<close>. The engine only ever compares against ASCII keywords, so
  \<open>str.lower\<close> is modelled on the ASCII letters and \<open>str.rstrip\<close> on the ASCII
  white-space characters; every other character is left alone.
\<close>

definition lower_char :: "char \<Rightarrow> char" where
  "lower_char c =
     (case map_of (zip ''ABCDEFGHIJKLMNOPQRSTUVWXYZ'' ''abcdefghijklmnopqrstuvwxyz'') c of
        Some d \<Rightarrow> d
      | None \<Rightarrow> c)"

definition lower :: "string \<Rightarrow> string" where
  "lower s = map lower_char s"

definition isspace :: "char \<Rightarrow> bool" where
  "isspace c = (c \<in> set [CHR 0x09, CHR 0x0A, CHR 0x0B, CHR 0x0C, CHR 0x0D,
                          CHR 0x1C, CHR 0x1D, CHR 0x1E, CHR 0x1F, CHR '' ''])"

definition rstrip :: "string \<Rightarrow> string" where
  "rstrip s = rev (dropWhile isspace (rev s))"

text \<open>\<open>sep.join(xs)\<close> with the separator \<open>'\n'\<close>.\<close>

fun join_lines :: "string list \<Rightarrow> string" where
  "join_lines [] = []"
| "join_lines [x] = x"
| "join_lines (x # y # ys) = x @ [CHR 0x0A] @ join_lines (y # ys)"

text \<open>\<open>kw in s\<close> on strings: \<open>kw\<close> occurs in \<open>s\<close> as a contiguous run.\<close>

fun startswith :: "string \<Rightarrow> string \<Rightarrow> bool" where
  "startswith s [] = True"
| "startswith [] (k # ks) = False"
| "startswith (c # cs) (k # ks) = (c = k \<and> startswith cs ks)"

fun str_in :: "string \<Rightarrow> string \<Rightarrow> bool" where
  "str_in kw [] = (kw = [])"
| "str_in kw (c # cs) = (startswith (c # cs) kw \<or> str_in kw cs)"

text \<open>
  The expression \<open>any(keyword in text for keyword in ['input', 'enter', ':', '?'])\<close>,
  which the source writes out twice (stdout reader, submit-input handler).
\<close>

definition prompt_keywords :: "string list" where
  "prompt_keywords = [''input'', ''enter'', '':'', ''?'']"

definition any_keyword_in :: "string \<Rightarrow> bool" where
  "any_keyword_in text = list_ex (\<lambda>keyword. str_in keyword text) prompt_keywords"

section \<open>Sessions and their workers\<close>

text \<open>
  The child process as the engine sees it: \<open>poll()\<close> reads \<open>returncode\<close>, which is
  \<open>None\<close> while the process runs. A write to the input pipe goes to \<open>stdin_buffer\<close>,
  a flush moves the buffer to \<open>stdin_pipe\<close>.
\<close>

text \<open>
  What the engine may send to the process: \<open>send_signal(signal.SIGTERM)\<close>,
  \<open>terminate()\<close> (on Windows) and \<open>kill()\<close>.
\<close>

datatype signal = SIGTERM | TERMINATE | KILL

record Popen =
  returncode :: "int option"
  stdin_buffer :: string
  stdin_pipe :: string
  stdin_closed :: bool
  stdout_closed :: bool
  stderr_closed :: bool
  signals :: "signal list"

definition poll :: "Popen \<Rightarrow> int option" where
  "poll p = returncode p"

definition stdin_write :: "string \<Rightarrow> Popen \<Rightarrow> Popen" where
  "stdin_write data p = p\<lparr>stdin_buffer := stdin_buffer p @ data\<rparr>"

definition stdin_flush :: "Popen \<Rightarrow> Popen" where
  "stdin_flush p = p\<lparr>stdin_pipe := stdin_pipe p @ stdin_buffer p, stdin_buffer := []\<rparr>"

text \<open>
  The input queue holds texts and the poison pill \<open>None\<close>; the output queue holds
  pairs of a stream tag (\<open>'output'\<close> or \<open>'error'\<close>) and a line.
\<close>

record ExecutionSession =
  session_id :: string
  process :: Popen
  input_queue :: "string option list"
  output_queue :: "(string \<times> string) list"
  temp_files :: "string list"
  is_waiting_for_input :: bool
  is_complete :: bool
  final_output :: string
  error_output :: string

datatype loop_ctl = Continue | Break

text \<open>What one \<open>readline()\<close> gives: a line (empty at end of file) or an exception.\<close>

datatype readline_result = Line string | Raises string

text \<open>One round of the \<open>while True\<close> loop of \<open>output_reader\<close>.\<close>

fun output_reader_iter :: "readline_result \<Rightarrow> ExecutionSession \<Rightarrow> loop_ctl \<times> ExecutionSession" where
  "output_reader_iter (Raises e) s =
     (Break, s\<lparr>output_queue := output_queue s @ [(''error'', ''Output reader error: '' @ e)]\<rparr>)"
| "output_reader_iter (Line line) s =
     (if line = [] \<and> poll (process s) \<noteq> None then (Break, s)
      else if line \<noteq> [] then
        (let s1 = s\<lparr>output_queue := output_queue s @ [(''output'', rstrip line)]\<rparr>
         in (Continue,
             if any_keyword_in (lower line) then s1\<lparr>is_waiting_for_input := True\<rparr> else s1))
      else (Continue, s))"

text \<open>One round of the loop of \<open>error_reader\<close>.\<close>

fun error_reader_iter :: "readline_result \<Rightarrow> ExecutionSession \<Rightarrow> loop_ctl \<times> ExecutionSession" where
  "error_reader_iter (Raises e) s =
     (Break, s\<lparr>output_queue := output_queue s @ [(''error'', ''Error reader error: '' @ e)]\<rparr>)"
| "error_reader_iter (Line line) s =
     (if line = [] \<and> poll (process s) \<noteq> None then (Break, s)
      else if line \<noteq> [] then
        (Continue, s\<lparr>output_queue := output_queue s @ [(''error'', rstrip line)]\<rparr>)
      else (Continue, s))"

text \<open>
  The two reader threads: the rounds run on the successive results of \<open>readline()\<close>
  until one breaks, then the \<open>finally\<close> clause closes the pipe. The flag of the result
  tells whether the thread has ended (it has not when the reads given are used up).
\<close>

fun output_reader :: "readline_result list \<Rightarrow> ExecutionSession \<Rightarrow> bool \<times> ExecutionSession" where
  "output_reader [] s = (False, s)"
| "output_reader (r # rs) s =
     (case output_reader_iter r s of
        (Break, s') \<Rightarrow> (True, s'\<lparr>process := (process s')\<lparr>stdout_closed := True\<rparr>\<rparr>)
      | (Continue, s') \<Rightarrow> output_reader rs s')"

fun error_reader :: "readline_result list \<Rightarrow> ExecutionSession \<Rightarrow> bool \<times> ExecutionSession" where
  "error_reader [] s = (False, s)"
| "error_reader (r # rs) s =
     (case error_reader_iter r s of
        (Break, s') \<Rightarrow> (True, s'\<lparr>process := (process s')\<lparr>stderr_closed := True\<rparr>\<rparr>)
      | (Continue, s') \<Rightarrow> error_reader rs s')"

text \<open>
  One round of the loop of \<open>input_writer\<close>. \<open>inq.get(timeout=0.1)\<close> takes the head of
  the queue, or raises \<open>queue.Empty\<close> when there is none. \<open>write_raises\<close> says whether
  writing to the pipe faults (the \<open>except Exception\<close> branch, which ends the loop).
\<close>

definition input_writer_iter :: "bool \<Rightarrow> ExecutionSession \<Rightarrow> loop_ctl \<times> ExecutionSession" where
  "input_writer_iter write_raises s =
     (case input_queue s of
        [] \<Rightarrow> (if poll (process s) \<noteq> None then Break else Continue, s)
      | None # q \<Rightarrow> (Break, s\<lparr>input_queue := q\<rparr>)
      | Some input_data # q \<Rightarrow>
          (let s1 = s\<lparr>input_queue := q\<rparr>
           in if poll (process s1) = None then
                (if write_raises then (Break, s1)
                 else (Continue,
                       s1\<lparr>process := stdin_flush (stdin_write (input_data @ [CHR 0x0A]) (process s1))\<rparr>))
              else (Continue, s1)))"

text \<open>A round of the feeder followed, when the loop ends, by the closing of the pipe.\<close>

definition input_writer :: "bool \<Rightarrow> ExecutionSession \<Rightarrow> loop_ctl \<times> ExecutionSession" where
  "input_writer write_raises s =
     (case input_writer_iter write_raises s of
        (Break, s') \<Rightarrow> (Break, s'\<lparr>process := (process s')\<lparr>stdin_closed := True\<rparr>\<rparr>)
      | (Continue, s') \<Rightarrow> (Continue, s'))"

section \<open>The events of a session's environment\<close>

text \<open>
  While a request handler sleeps or polls, the workers of the session and the process
  itself go on. An event is one round of a worker, or the exit of the process (which
  \<open>poll()\<close> then reports), or \<open>Tick\<close>: one round of the handler's own drain loop.
\<close>

datatype event =
    Stdout readline_result
  | Stderr readline_result
  | Feeder bool
  | Exits int
  | Tick

fun worker_step :: "event \<Rightarrow> ExecutionSession \<Rightarrow> ExecutionSession" where
  "worker_step (Stdout r) s = snd (output_reader [r] s)"
| "worker_step (Stderr r) s = snd (error_reader [r] s)"
| "worker_step (Feeder write_raises) s = snd (input_writer write_raises s)"
| "worker_step (Exits rc) s =
     (if poll (process s) = None then s\<lparr>process := (process s)\<lparr>returncode := Some rc\<rparr>\<rparr> else s)"
| "worker_step Tick s = s"

definition run_events :: "event list \<Rightarrow> ExecutionSession \<Rightarrow> ExecutionSession" where
  "run_events es s = fold worker_step es s"

text \<open>
  The bounded drain loop of \<open>execute_code\<close> and \<open>provide_input\<close>:
  \<^verbatim>\<open>
  while time.time() < timeout:
      try:
          msg_type, msg = output_queue.get_nowait()
          if msg_type == 'output': output_lines.append(msg)
          else: error_lines.append(msg)
      except queue.Empty:
          if process.poll() is not None: break
          time.sleep(0.05)
  \<close>
  The events are what happens until the time is up; the loop may break before.
\<close>

fun drain_window ::
  "event list \<Rightarrow> ExecutionSession \<Rightarrow> string list \<Rightarrow> string list \<Rightarrow>
     ExecutionSession \<times> string list \<times> string list" where
  "drain_window [] s out err = (s, out, err)"
| "drain_window (Tick # es) s out err =
     (case output_queue s of
        [] \<Rightarrow> (if poll (process s) \<noteq> None then (s, out, err) else drain_window es s out err)
      | (msg_type, msg) # q \<Rightarrow>
          (if msg_type = ''output''
           then drain_window es (s\<lparr>output_queue := q\<rparr>) (out @ [msg]) err
           else drain_window es (s\<lparr>output_queue := q\<rparr>) out (err @ [msg])))"
| "drain_window (e # es) s out err = drain_window es (worker_step e s) out err"

text \<open>The events of the window that took place before the loop ended.\<close>

fun elapsed :: "event list \<Rightarrow> ExecutionSession \<Rightarrow> event list" where
  "elapsed [] s = []"
| "elapsed (Tick # es) s =
     (case output_queue s of
        [] \<Rightarrow> (if poll (process s) \<noteq> None then [Tick] else Tick # elapsed es s)
      | m # q \<Rightarrow> Tick # elapsed es (s\<lparr>output_queue := q\<rparr>))"
| "elapsed (e # es) s = e # elapsed es (worker_step e s)"

text \<open>Whether the keyword heuristic of the stdout reader fired during the events.\<close>

fun fires :: "event \<Rightarrow> bool" where
  "fires (Stdout (Line line)) = any_keyword_in (lower line)"
| "fires e = False"

definition heuristic_fired :: "event list \<Rightarrow> bool" where
  "heuristic_fired es = list_ex fires es"

text \<open>
  The non-blocking drain, \<open>while not output_queue.empty(): ... get_nowait()\<close>, on the
  content of the queue; it leaves the queue empty.
\<close>

fun drain_all :: "(string \<times> string) list \<Rightarrow> string list \<Rightarrow> string list \<Rightarrow> string list \<times> string list" where
  "drain_all [] out err = (out, err)"
| "drain_all ((msg_type, msg) # q) out err =
     (if msg_type = ''output'' then drain_all q (out @ [msg]) err
      else drain_all q out (err @ [msg]))"

section \<open>The file system and the toolchain\<close>

datatype node = File | Dir

type_synonym filesystem = "string \<Rightarrow> node option"

definition sep :: "bool \<Rightarrow> string" where
  "sep windows = (if windows then [CHR 0x5C] else ''/'')"

text \<open>\<open>os.path.join\<close> of a directory without a trailing separator and a file name.\<close>

definition path_join :: "bool \<Rightarrow> string \<Rightarrow> string \<Rightarrow> string" where
  "path_join windows d name = d @ sep windows @ name"

definition rmtree :: "bool \<Rightarrow> string \<Rightarrow> filesystem \<Rightarrow> filesystem" where
  "rmtree windows d files =
     (\<lambda>p. if p = d \<or> startswith p (d @ sep windows) then None else files p)"

definition unlink :: "string \<Rightarrow> filesystem \<Rightarrow> filesystem" where
  "unlink f files = files(f := None)"

text \<open>
  \<open>cleanup_temp_files\<close>. Deleting never faults in this file system, so the
  \<open>except\<close> branch, which only prints, has no counterpart.
\<close>

fun cleanup_temp_files :: "bool \<Rightarrow> string list \<Rightarrow> filesystem \<Rightarrow> filesystem" where
  "cleanup_temp_files windows [] files = files"
| "cleanup_temp_files windows (filepath # rest) files =
     cleanup_temp_files windows rest
       (case files filepath of
          None \<Rightarrow> files
        | Some Dir \<Rightarrow> rmtree windows filepath files
        | Some File \<Rightarrow> unlink filepath files)"

definition get_file_extension :: "string \<Rightarrow> string" where
  "get_file_extension language =
     (case map_of [(''python'', ''.py''), (''c'', ''.c''), (''cpp'', ''.cpp'')] language of
        Some ext \<Rightarrow> ext
      | None \<Rightarrow> ''.txt'')"

definition get_executable_extension :: "bool \<Rightarrow> string" where
  "get_executable_extension windows = (if windows then ''.exe'' else ''.out'')"

definition get_compile_command :: "bool \<Rightarrow> string \<Rightarrow> string \<Rightarrow> string \<Rightarrow> string list option" where
  "get_compile_command windows filepath language output_path =
     (if language = ''c'' then
        (if windows then Some [''gcc'', filepath, ''-o'', output_path]
         else Some [''clang'', filepath, ''-o'', output_path])
      else if language = ''cpp'' then
        (if windows then Some [''g++'', filepath, ''-o'', output_path]
         else Some [''clang++'', filepath, ''-o'', output_path])
      else None)"

definition get_run_command :: "bool \<Rightarrow> string \<Rightarrow> string \<Rightarrow> string option \<Rightarrow> string option list" where
  "get_run_command windows filepath language executable_path =
     (if language = ''python'' then [Some ''python'', Some filepath]
      else if language \<in> set [''c'', ''cpp''] then
        (if windows then [executable_path] else [executable_path])
      else [])"

section \<open>The world of the server\<close>

text \<open>
  The registry \<open>execution_sessions\<close> is a dictionary from session ids to session
  objects: an association list (Python dictionaries keep insertion order) from ids to
  references into \<open>heap\<close>. A session object outlives its registry entry, since the
  workers of the session hold it too. \<open>run_log\<close> records the commands given to
  \<open>subprocess.run\<close>, in order.
\<close>

record world =
  IS_WINDOWS :: bool
  execution_sessions :: "(string \<times> nat) list"
  heap :: "nat \<Rightarrow> ExecutionSession"
  next_ref :: nat
  fs :: filesystem
  run_log :: "string list list"

text \<open>What the outside gives to one request.\<close>

datatype run_outcome = FileNotFoundError | CompletedProcess int string | RunRaises string

datatype popen_outcome = Started | PopenRaises string

record environment =
  mkdtemp :: string
  uuid4 :: string
  subprocess_run :: "nat \<Rightarrow> string list \<Rightarrow> run_outcome"
  subprocess_Popen :: "string option list \<Rightarrow> popen_outcome"
  sleep_events :: "event list"
  window_events :: "event list"
  after_events :: "event list"

text \<open>
  The JSON answers: \<open>{'error': e}\<close> with its HTTP code, the same with \<open>'details'\<close>,
  and the answers with a \<open>'status'\<close>.
\<close>

datatype response =
    Error_response string nat
  | Error_details string string nat
  | Completed string string
  | Running_session string string string bool
  | Running string string bool
  | Terminated

section \<open>The request handlers\<close>

text \<open>
  The compile step of \<open>execute_code\<close> (the block under \<open>if language in ['c', 'cpp']\<close>).
  It gives the answer of the request when the step fails, and otherwise the path of the
  executable and the list of temporary files. A compiler that exits with code 0 has
  written the executable. An exception other than \<open>FileNotFoundError\<close> reaches the
  handler's \<open>except Exception\<close> clauses: clean up, answer 500.
\<close>

definition after_compile ::
  "run_outcome \<Rightarrow> string \<Rightarrow> string list \<Rightarrow> world \<Rightarrow>
     (response \<times> world) + (string option \<times> string list \<times> world)" where
  "after_compile compile_result executable_path files w =
     (case compile_result of
        CompletedProcess rc stderr \<Rightarrow>
          (if rc \<noteq> 0 then
             Inl (Error_details ''Compilation error'' stderr 400,
                  w\<lparr>fs := cleanup_temp_files (IS_WINDOWS w) files (fs w)\<rparr>)
           else
             Inr (Some executable_path, files @ [executable_path],
                  w\<lparr>fs := (fs w)(executable_path \<mapsto> File)\<rparr>))
      | RunRaises e \<Rightarrow>
          Inl (Error_response e 500,
               w\<lparr>fs := cleanup_temp_files (IS_WINDOWS w) files (fs w)\<rparr>)
      | FileNotFoundError \<Rightarrow>
          Inl (Error_details ''Compiler not found''
                 ''Please install a C/C++ compiler (gcc/g++ or clang/clang++)'' 400,
               w\<lparr>fs := cleanup_temp_files (IS_WINDOWS w) files (fs w)\<rparr>))"

text \<open>
  The command of the second attempt, after \<open>FileNotFoundError\<close>:
  \<^verbatim>\<open>
  if language == 'c' and IS_WINDOWS:
      compile_cmd = ['clang', code_file, '-o', executable_path]
  elif language == 'cpp' and IS_WINDOWS:
      compile_cmd = ['clang++', code_file, '-o', executable_path]
  \<close>
  and otherwise \<open>compile_cmd\<close> as it was.
\<close>

definition alternative_command ::
  "bool \<Rightarrow> string \<Rightarrow> string \<Rightarrow> string \<Rightarrow> string list \<Rightarrow> string list" where
  "alternative_command windows language code_file executable_path compile_cmd =
     (if language = ''c'' \<and> windows then [''clang'', code_file, ''-o'', executable_path]
      else if language = ''cpp'' \<and> windows then [''clang++'', code_file, ''-o'', executable_path]
      else compile_cmd)"

definition compile_program ::
  "environment \<Rightarrow> string \<Rightarrow> string \<Rightarrow> string \<Rightarrow> string list \<Rightarrow> world \<Rightarrow>
     (response \<times> world) + (string option \<times> string list \<times> world)" where
  "compile_program env language temp_dir code_file files w =
     (if language \<in> set [''c'', ''cpp''] then
        (let executable_path =
               path_join (IS_WINDOWS w) temp_dir
                 (''program'' @ get_executable_extension (IS_WINDOWS w))
         in case get_compile_command (IS_WINDOWS w) code_file language executable_path of
              None \<Rightarrow>
                Inl (Error_response ''TypeError'' 500,
                     w\<lparr>fs := cleanup_temp_files (IS_WINDOWS w) files (fs w)\<rparr>)
            | Some compile_cmd \<Rightarrow>
                (let w1 = w\<lparr>run_log := run_log w @ [compile_cmd]\<rparr>
                 in case subprocess_run env 0 compile_cmd of
                      FileNotFoundError \<Rightarrow>
                        (let compile_cmd2 =
                               alternative_command (IS_WINDOWS w) language code_file
                                 executable_path compile_cmd;
                             w2 = w1\<lparr>run_log := run_log w1 @ [compile_cmd2]\<rparr>
                         in after_compile (subprocess_run env 1 compile_cmd2)
                              executable_path files w2)
                    | compile_result \<Rightarrow>
                        after_compile compile_result executable_path files w1))
      else Inr (None, files, w))"

text \<open>A session object as \<open>execute_code\<close> creates it, around a process just started.\<close>

definition new_process :: Popen where
  "new_process =
     \<lparr>returncode = None, stdin_buffer = [], stdin_pipe = [], stdin_closed = False,
      stdout_closed = False, stderr_closed = False, signals = []\<rparr>"

definition new_session :: "string \<Rightarrow> string list \<Rightarrow> ExecutionSession" where
  "new_session sid files =
     \<lparr>session_id = sid, process = new_process, input_queue = [], output_queue = [],
      temp_files = files, is_waiting_for_input = False, is_complete = False,
      final_output = [], error_output = []\<rparr>"

text \<open>
  The warm-up of \<open>execute_code\<close>: \<open>time.sleep(0.3)\<close>, the drain loop of at most
  0.5 seconds, and what happens before the next \<open>process.poll()\<close>.
\<close>

definition warm_up ::
  "environment \<Rightarrow> ExecutionSession \<Rightarrow> ExecutionSession \<times> string list \<times> string list" where
  "warm_up env session =
     (case drain_window (window_events env) (run_events (sleep_events env) session) [] [] of
        (s, initial_output, initial_errors) \<Rightarrow>
          (run_events (after_events env) s, initial_output, initial_errors))"

text \<open>The events that took place during the warm-up.\<close>

definition warm_up_events :: "environment \<Rightarrow> ExecutionSession \<Rightarrow> event list" where
  "warm_up_events env session =
     sleep_events env
       @ elapsed (window_events env) (run_events (sleep_events env) session)
       @ after_events env"

text \<open>The rest of \<open>execute_code\<close>, from \<open>get_run_command\<close> on.\<close>

definition launch ::
  "environment \<Rightarrow> string \<Rightarrow> string \<Rightarrow> string option \<Rightarrow> string list \<Rightarrow> world \<Rightarrow>
     response \<times> world" where
  "launch env language code_file executable_path files w =
     (case subprocess_Popen env
             (get_run_command (IS_WINDOWS w) code_file language executable_path) of
        PopenRaises e \<Rightarrow>
          (Error_response e 500,
           w\<lparr>fs := cleanup_temp_files (IS_WINDOWS w) files (fs w)\<rparr>)
      | Started \<Rightarrow>
          (let sid = uuid4 env;
               r = next_ref w;
               w1 = w\<lparr>heap := (heap w)(r := new_session sid files),
                      next_ref := Suc r,
                      execution_sessions := AList.update sid r (execution_sessions w)\<rparr>
           in case warm_up env (new_session sid files) of
                (session, initial_output, initial_errors) \<Rightarrow>
                  if poll (process session) \<noteq> None then
                    (let finished = session\<lparr>is_complete := True,
                                        final_output := join_lines initial_output,
                                        error_output := join_lines initial_errors,
                                        input_queue := input_queue session @ [None]\<rparr>
                     in (Completed (final_output finished) (error_output finished),
                         w1\<lparr>heap := (heap w1)(r := finished),
                            fs := cleanup_temp_files (IS_WINDOWS w1) files (fs w1),
                            execution_sessions := AList.delete sid (execution_sessions w1)\<rparr>))
                  else
                    (Running_session sid (join_lines initial_output) (join_lines initial_errors)
                       (is_waiting_for_input session
                          \<or> (initial_output = [] \<and> initial_errors = [])),
                     w1\<lparr>heap := (heap w1)(r := session)\<rparr>)))"

text \<open>
  The two paths that \<open>execute_code\<close> builds in its temporary directory: the code
  file and, for a compiled language, the executable.
\<close>

definition source_file :: "environment \<Rightarrow> string \<Rightarrow> world \<Rightarrow> string" where
  "source_file env language w =
     path_join (IS_WINDOWS w) (mkdtemp env) (''code'' @ get_file_extension language)"

definition program_file :: "environment \<Rightarrow> world \<Rightarrow> string" where
  "program_file env w =
     path_join (IS_WINDOWS w) (mkdtemp env)
       (''program'' @ get_executable_extension (IS_WINDOWS w))"

definition execute_code :: "environment \<Rightarrow> string \<Rightarrow> string \<Rightarrow> world \<Rightarrow> response \<times> world" where
  "execute_code env code language_given w =
     (let language = lower language_given
      in if language \<notin> set [''python'', ''c'', ''cpp'']
         then (Error_response ''Unsupported language'' 400, w)
         else
           (let temp_dir = mkdtemp env;
                code_file = path_join (IS_WINDOWS w) temp_dir
                              (''code'' @ get_file_extension language);
                w1 = w\<lparr>fs := (fs w)(temp_dir \<mapsto> Dir, code_file \<mapsto> File)\<rparr>
            in case compile_program env language temp_dir code_file [temp_dir, code_file] w1 of
                 Inl failed \<Rightarrow> failed
               | Inr (executable_path, files, w2) \<Rightarrow>
                   launch env language code_file executable_path files w2))"

definition provide_input :: "environment \<Rightarrow> string \<Rightarrow> string \<Rightarrow> world \<Rightarrow> response \<times> world" where
  "provide_input env sid user_input w =
     (case map_of (execution_sessions w) sid of
        None \<Rightarrow> (Error_response ''Invalid session ID'' 400, w)
      | Some r \<Rightarrow>
          (let session = heap w r
           in if poll (process session) \<noteq> None then
                (Completed [] ''Process has already terminated'',
                 w\<lparr>fs := cleanup_temp_files (IS_WINDOWS w) (temp_files session) (fs w),
                   execution_sessions := AList.delete sid (execution_sessions w)\<rparr>)
              else
                (case drain_window (window_events env)
                        (run_events (sleep_events env)
                           (session\<lparr>input_queue := input_queue session @ [Some user_input],
                                    is_waiting_for_input := False\<rparr>)) [] [] of
                   (s2, output_lines, error_lines) \<Rightarrow>
                     (let s3 = run_events (after_events env) s2
                      in if poll (process s3) \<noteq> None then
                           (case drain_all (output_queue s3) output_lines error_lines of
                              (all_output, all_errors) \<Rightarrow>
                                (let finished = s3\<lparr>is_complete := True,
                                               output_queue := [],
                                               final_output := join_lines all_output,
                                               error_output := join_lines all_errors,
                                               input_queue := input_queue s3 @ [None]\<rparr>
                                 in (Completed (final_output finished) (error_output finished),
                                     w\<lparr>heap := (heap w)(r := finished),
                                       fs := cleanup_temp_files (IS_WINDOWS w)
                                               (temp_files finished) (fs w),
                                       execution_sessions :=
                                         AList.delete sid (execution_sessions w)\<rparr>)))
                         else
                           (let waiting = (output_lines \<noteq> []
                                             \<and> any_keyword_in (lower (last output_lines)));
                                s4 = s3\<lparr>is_waiting_for_input := waiting\<rparr>
                            in (Running (join_lines output_lines) (join_lines error_lines)
                                  (is_waiting_for_input s4),
                                w\<lparr>heap := (heap w)(r := s4)\<rparr>))))))"

text \<open>
  The waiting estimate of submit-input as the specification words it: the keyword
  heuristic on the last captured line that is not empty.
\<close>

definition waiting_from_last_nonempty_line :: "string list \<Rightarrow> bool" where
  "waiting_from_last_nonempty_line captured =
     (let lines = filter (\<lambda>line. line \<noteq> []) captured
      in lines \<noteq> [] \<and> any_keyword_in (lower (last lines)))"

definition check_status :: "string \<Rightarrow> world \<Rightarrow> response \<times> world" where
  "check_status sid w =
     (case map_of (execution_sessions w) sid of
        None \<Rightarrow> (Error_response ''Invalid session ID'' 400, w)
      | Some r \<Rightarrow>
          (case drain_all (output_queue (heap w r)) [] [] of
             (output_lines, error_lines) \<Rightarrow>
               (let session = (heap w r)\<lparr>output_queue := []\<rparr>
                in if poll (process session) \<noteq> None then
                     (let finished = session\<lparr>is_complete := True,
                                         input_queue := input_queue session @ [None]\<rparr>
                      in (Completed (join_lines output_lines) (join_lines error_lines),
                          w\<lparr>heap := (heap w)(r := finished),
                            fs := cleanup_temp_files (IS_WINDOWS w) (temp_files finished) (fs w),
                            execution_sessions := AList.delete sid (execution_sessions w)\<rparr>))
                   else
                     (Running (join_lines output_lines) (join_lines error_lines)
                        (is_waiting_for_input session),
                      w\<lparr>heap := (heap w)(r := session)\<rparr>))))"

text \<open>
  \<open>terminate_session\<close>. \<open>wait_result\<close> is what \<open>process.wait(timeout=2)\<close> gives: the
  exit code, or \<open>None\<close> for \<open>TimeoutExpired\<close>.
\<close>

definition terminate_session :: "int option \<Rightarrow> string \<Rightarrow> world \<Rightarrow> response \<times> world" where
  "terminate_session wait_result sid w =
     (case map_of (execution_sessions w) sid of
        None \<Rightarrow> (Error_response ''Invalid session ID'' 400, w)
      | Some r \<Rightarrow>
          (let session = heap w r;
               p = process session;
               p' = (if poll p = None then
                       (let p1 = p\<lparr>signals := signals p
                                      @ [if IS_WINDOWS w then TERMINATE else SIGTERM]\<rparr>
                        in case wait_result of
                             Some rc \<Rightarrow> p1\<lparr>returncode := Some rc\<rparr>
                           | None \<Rightarrow> p1\<lparr>signals := signals p1 @ [KILL]\<rparr>)
                     else p);
               finished = session\<lparr>process := p', input_queue := input_queue session @ [None]\<rparr>
           in (Terminated,
               w\<lparr>heap := (heap w)(r := finished),
                 fs := cleanup_temp_files (IS_WINDOWS w) (temp_files finished) (fs w),
                 execution_sessions := AList.delete sid (execution_sessions w)\<rparr>)))"

text \<open>
  One round of the \<open>while True\<close> loop of \<open>cleanup_old_sessions\<close>, after its
  \<open>time.sleep(60)\<close>. An id that is no longer in the registry raises \<open>KeyError\<close>,
  which ends the round.
\<close>

fun remove_sessions :: "string list \<Rightarrow> world \<Rightarrow> world" where
  "remove_sessions [] w = w"
| "remove_sessions (sid # sids) w =
     (case map_of (execution_sessions w) sid of
        None \<Rightarrow> w
      | Some r \<Rightarrow>
          remove_sessions sids
            (w\<lparr>fs := cleanup_temp_files (IS_WINDOWS w) (temp_files (heap w r)) (fs w),
               execution_sessions := AList.delete sid (execution_sessions w)\<rparr>))"

definition cleanup_old_sessions :: "world \<Rightarrow> world" where
  "cleanup_old_sessions w =
     remove_sessions
       (map fst (filter (\<lambda>(sid, r). poll (process (heap w r)) \<noteq> None) (execution_sessions w)))
       w"

section \<open>Sequences of requests\<close>

text \<open>The three operations that a caller addresses to a session id.\<close>

datatype call = Submit_input environment string | Poll_status | Terminate "int option"

fun perform :: "call \<Rightarrow> string \<Rightarrow> world \<Rightarrow> response \<times> world" where
  "perform (Submit_input env user_input) sid w = provide_input env sid user_input w"
| "perform Poll_status sid w = check_status sid w"
| "perform (Terminate wait_result) sid w = terminate_session wait_result sid w"

text \<open>
  What can happen to the server: a call on some session id, a start request, a round
  of the reaper, and a worker of some session object making a step.
\<close>

datatype action =
    Call call string
  | Start environment string string
  | Reap
  | Work nat event

fun act :: "action \<Rightarrow> world \<Rightarrow> world" where
  "act (Call c sid) w = snd (perform c sid w)"
| "act (Start env code language) w = snd (execute_code env code language w)"
| "act Reap w = cleanup_old_sessions w"
| "act (Work r e) w = w\<lparr>heap := (heap w)(r := worker_step e (heap w r))\<rparr>"

text \<open>A start request that draws the given id as its \<open>uuid4()\<close>.\<close>

fun draws :: "string \<Rightarrow> action \<Rightarrow> bool" where
  "draws sid (Start env code language) = (uuid4 env = sid)"
| "draws sid a = False"

fun final :: "response \<Rightarrow> bool" where
  "final (Completed out err) = True"
| "final Terminated = True"
| "final other = False"

fun failed :: "response \<Rightarrow> bool" where
  "failed (Error_response e code) = True"
| "failed (Error_details e details code) = True"
| "failed other = False"

section \<open>Example data\<close>

definition quiet :: environment where
  "quiet =
     \<lparr>mkdtemp = ''/tmp/tmpq7k2'', uuid4 = ''c4a6'',
      subprocess_run = (\<lambda>n cmd. FileNotFoundError),
      subprocess_Popen = (\<lambda>cmd. Started),
      sleep_events = [], window_events = [], after_events = []\<rparr>"

definition prompting :: ExecutionSession where
  "prompting = new_session ''0f8e'' [''/tmp/tmpab12'', ''/tmp/tmpab12/code.py'']"

definition exited :: ExecutionSession where
  "exited =
     (new_session ''77c1'' [''/tmp/tmpzz90'', ''/tmp/tmpzz90/code.py''])
       \<lparr>process := new_process\<lparr>returncode := Some 0\<rparr>,
        output_queue := [(''output'', ''Hello, World!'')]\<rparr>"

definition server :: world where
  "server =
     \<lparr>IS_WINDOWS = False,
      execution_sessions = [(''0f8e'', 0), (''77c1'', 1)],
      heap = (\<lambda>r. if r = 0 then prompting else exited),
      next_ref = 2,
      fs = [''/tmp/tmpab12'' \<mapsto> Dir, ''/tmp/tmpab12/code.py'' \<mapsto> File,
            ''/tmp/tmpzz90'' \<mapsto> Dir, ''/tmp/tmpzz90/code.py'' \<mapsto> File],
      run_log = []\<rparr>"

definition idle :: world where
  "idle =
     \<lparr>IS_WINDOWS = False, execution_sessions = [], heap = (\<lambda>r. exited), next_ref = 0,
      fs = Map.empty, run_log = []\<rparr>"

definition asking :: environment where
  "asking = quiet\<lparr>window_events := [Stdout (Line ''What is your name? ''), Tick]\<rparr>"

definition greeting :: environment where
  "greeting = quiet\<lparr>window_events := [Stdout (Line (''Hello'' @ [CHR 0x0A])), Tick]\<rparr>"

definition blank_after_prompt :: environment where
  "blank_after_prompt =
     quiet\<lparr>window_events :=
             [Stdout (Line (''Your age: '' @ [CHR 0x0A])), Stdout (Line [CHR 0x0A]), Tick, Tick]\<rparr>"

definition broken_build :: environment where
  "broken_build = quiet\<lparr>subprocess_run := (\<lambda>n cmd. CompletedProcess 1 ''code.c:1:1: error'')\<rparr>"

definition no_interpreter :: environment where
  "no_interpreter = quiet\<lparr>subprocess_Popen := (\<lambda>cmd. PopenRaises ''[Errno 2] No such file'')\<rparr>"

definition windows_host :: world where
  "windows_host = idle\<lparr>IS_WINDOWS := True\<rparr>"
section \<open>The keyword heuristic of the output multiplexer\<close>

lemma startswith_iff: "startswith s kw \<longleftrightarrow> (\<exists>suf. s = kw @ suf)"
proof (induction s kw rule: startswith.induct)
  case (1 s)
  show ?case by simp
next
  case (2 k ks)
  show ?case by simp
next
  case (3 c cs k ks)
  then show ?case by auto
qed

lemma str_in_iff: "str_in kw s \<longleftrightarrow> (\<exists>pre suf. s = pre @ kw @ suf)"
proof (induction s)
  case Nil
  show ?case by auto
next
  case (Cons c cs)
  show ?case
  proof
    assume "str_in kw (c # cs)"
    then consider "startswith (c # cs) kw" | "str_in kw cs" by auto
    then show "\<exists>pre suf. c # cs = pre @ kw @ suf"
    proof cases
      case 1
      then obtain suf where "c # cs = kw @ suf" by (auto simp: startswith_iff)
      then have "c # cs = [] @ kw @ suf" by simp
      then show ?thesis by blast
    next
      case 2
      with Cons.IH obtain pre suf where "cs = pre @ kw @ suf" by blast
      then have "c # cs = (c # pre) @ kw @ suf" by simp
      then show ?thesis by blast
    qed
  next
    assume "\<exists>pre suf. c # cs = pre @ kw @ suf"
    then obtain pre suf where e: "c # cs = pre @ kw @ suf" by blast
    show "str_in kw (c # cs)"
    proof (cases pre)
      case Nil
      with e have "startswith (c # cs) kw" by (auto simp: startswith_iff)
      then show ?thesis by simp
    next
      case (Cons p ps)
      with e have "cs = ps @ kw @ suf" by simp
      with Cons.IH have "str_in kw cs" by blast
      then show ?thesis by simp
    qed
  qed
qed

lemma any_keyword_in_iff:
  "any_keyword_in text \<longleftrightarrow>
     (\<exists>kw pre suf. (kw = ''input'' \<or> kw = ''enter'' \<or> kw = '':'' \<or> kw = ''?'') \<and>
        text = pre @ kw @ suf)"
  unfolding any_keyword_in_def prompt_keywords_def list_ex_iff str_in_iff
  by (simp only: set_simps bex_simps insert_iff empty_iff) blast


lemma error_reader_flag:
  "is_waiting_for_input (snd (error_reader rs s)) = is_waiting_for_input s"
proof (induction rs arbitrary: s)
  case Nil
  show ?case by simp
next
  case (Cons r rs)
  show ?case
  proof (cases r)
    case (Line line)
    with Cons show ?thesis by (simp split: prod.splits loop_ctl.splits)
  next
    case (Raises e)
    then show ?thesis by simp
  qed
qed

text \<open>
  C7. For a line read from stdout, the waiting flag is true afterwards exactly when it
  was true before or the lowercased line contains one of \<open>input\<close>, \<open>enter\<close>, \<open>:\<close>,
  \<open>?\<close>: the reader sets it on a match and on nothing else. The stderr reader, whatever
  it reads, leaves the flag as it was.
\<close>

theorem output_reader_heuristic:
  "is_waiting_for_input (snd (output_reader_iter (Line line) s)) =
     (is_waiting_for_input s \<or>
        (\<exists>kw pre suf. (kw = ''input'' \<or> kw = ''enter'' \<or> kw = '':'' \<or> kw = ''?'') \<and>
           lower line = pre @ kw @ suf))
   \<and> is_waiting_for_input (snd (error_reader rs s)) = is_waiting_for_input s"
proof -
  have empty: "\<not> any_keyword_in []"
    by (simp add: any_keyword_in_def prompt_keywords_def)
  have "is_waiting_for_input (snd (output_reader_iter (Line line) s)) =
          (is_waiting_for_input s \<or> any_keyword_in (lower line))"
    using empty by (cases "line = []") (auto simp: Let_def lower_def)
  then show ?thesis
    by (simp only: any_keyword_in_iff error_reader_flag) 
qed

theorem output_reader_heuristic_witness:
  "is_waiting_for_input (snd (output_reader_iter (Line ''Enter your name: '') prompting))
   \<and> \<not> is_waiting_for_input (snd (output_reader_iter (Line ''Hello, World!'') prompting))
   \<and> \<not> is_waiting_for_input (snd (error_reader [Line ''input error?''] prompting))"
  using output_reader_heuristic [of "''Enter your name: ''" prompting "[Line ''input error?'']"]
    output_reader_heuristic [of "''Hello, World!''" prompting "[]"]
  by (simp add: any_keyword_in_iff [symmetric] any_keyword_in_def prompt_keywords_def
      lower_def lower_char_def prompting_def new_session_def)

section \<open>The input feeder\<close>

text \<open>
  C9. When the feeder takes a value from its queue: the sentinel \<open>None\<close> ends the loop;
  a text taken after the process has exited is dropped, nothing is written and the loop
  goes on; a text taken while the process runs is written to the input stream followed
  by one line terminator and flushed at once (the buffer is empty afterwards), unless
  the write faults, which ends the loop. Whenever the loop ends, the input stream is
  closed.
\<close>

theorem input_writer_dequeue:
  assumes "input_queue s = item # q"
  shows "(case item of
            None \<Rightarrow>
              input_writer write_raises s =
                (Break, s\<lparr>input_queue := q, process := (process s)\<lparr>stdin_closed := True\<rparr>\<rparr>)
          | Some input_data \<Rightarrow>
              (if poll (process s) \<noteq> None then
                 input_writer write_raises s = (Continue, s\<lparr>input_queue := q\<rparr>)
               else if write_raises then
                 input_writer write_raises s =
                   (Break, s\<lparr>input_queue := q, process := (process s)\<lparr>stdin_closed := True\<rparr>\<rparr>)
               else
                 input_writer write_raises s =
                   (Continue,
                    s\<lparr>input_queue := q,
                      process := (process s)
                        \<lparr>stdin_pipe := stdin_pipe (process s) @ stdin_buffer (process s)
                                         @ input_data @ [CHR 0x0A],
                         stdin_buffer := []\<rparr>\<rparr>)))
         \<and> (fst (input_writer write_raises s) = Break \<longrightarrow>
              stdin_closed (process (snd (input_writer write_raises s))))"
  using assms
  by (cases item)
     (auto simp: input_writer_def input_writer_iter_def stdin_flush_def stdin_write_def Let_def)

theorem input_writer_dequeue_witness:
  "input_writer False (prompting\<lparr>input_queue := [Some ''John'', None]\<rparr>) =
     (Continue, prompting\<lparr>input_queue := [None],
                  process := new_process\<lparr>stdin_pipe := ''John'' @ [CHR 0x0A], stdin_buffer := []\<rparr>\<rparr>)
   \<and> input_writer False (exited\<lparr>input_queue := [Some ''John'', None]\<rparr>) =
     (Continue, exited\<lparr>input_queue := [None]\<rparr>)
   \<and> fst (input_writer False (prompting\<lparr>input_queue := [None]\<rparr>)) = Break
   \<and> stdin_closed (process (snd (input_writer False (prompting\<lparr>input_queue := [None]\<rparr>))))"
  using input_writer_dequeue [of "prompting\<lparr>input_queue := [Some ''John'', None]\<rparr>"
      "Some ''John''" "[None]" False]
    input_writer_dequeue [of "exited\<lparr>input_queue := [Some ''John'', None]\<rparr>"
      "Some ''John''" "[None]" False]
    input_writer_dequeue [of "prompting\<lparr>input_queue := [None]\<rparr>" None "[]" False]
  by (simp add: prompting_def exited_def new_session_def new_process_def poll_def)

section \<open>The registry under the operations\<close>

lemma provide_input_registry:
  "execution_sessions (snd (provide_input env sid user_input w)) = execution_sessions w
   \<or> execution_sessions (snd (provide_input env sid user_input w)) =
       AList.delete sid (execution_sessions w)"
  by (simp add: provide_input_def Let_def split: option.splits prod.splits)

lemma check_status_registry:
  "execution_sessions (snd (check_status sid w)) = execution_sessions w
   \<or> execution_sessions (snd (check_status sid w)) = AList.delete sid (execution_sessions w)"
  by (simp add: check_status_def Let_def split: option.splits prod.splits)

lemma terminate_session_registry:
  "execution_sessions (snd (terminate_session wait_result sid w)) = execution_sessions w
   \<or> execution_sessions (snd (terminate_session wait_result sid w)) =
       AList.delete sid (execution_sessions w)"
  by (simp add: terminate_session_def Let_def split: option.splits)

lemma perform_registry:
  "execution_sessions (snd (perform c sid w)) = execution_sessions w
   \<or> execution_sessions (snd (perform c sid w)) = AList.delete sid (execution_sessions w)"
  by (cases c)
     (simp_all add: provide_input_registry check_status_registry terminate_session_registry)

lemma absent_delete:
  "map_of al sid = None \<Longrightarrow> map_of (AList.delete sid' al) sid = None"
  by (simp add: delete_conv')

lemma perform_absent:
  assumes "map_of (execution_sessions w) sid = None"
  shows "map_of (execution_sessions (snd (perform c sid' w))) sid = None"
  using perform_registry [of c sid' w] assms by (auto simp: absent_delete)

lemma remove_sessions_absent:
  "map_of (execution_sessions w) sid = None \<Longrightarrow>
   map_of (execution_sessions (remove_sessions sids w)) sid = None"
proof (induction sids arbitrary: w)
  case Nil
  then show ?case by simp
next
  case (Cons x xs)
  show ?case
  proof (cases "map_of (execution_sessions w) x")
    case None
    with Cons.prems show ?thesis by simp
  next
    case (Some r)
    have "map_of (execution_sessions
            (w\<lparr>fs := cleanup_temp_files (IS_WINDOWS w) (temp_files (heap w r)) (fs w),
               execution_sessions := AList.delete x (execution_sessions w)\<rparr>)) sid = None"
      using Cons.prems by (simp add: absent_delete)
    from Cons.IH [OF this] Some show ?thesis by simp
  qed
qed

lemma compile_program_registry:
  "compile_program env language temp_dir code_file files w = Inl (resp, w') \<Longrightarrow>
     execution_sessions w' = execution_sessions w \<and> heap w' = heap w"
  "compile_program env language temp_dir code_file files w = Inr (exe, files', w') \<Longrightarrow>
     execution_sessions w' = execution_sessions w \<and> heap w' = heap w"
  by (auto simp: compile_program_def after_compile_def Let_def
      split: if_splits option.splits run_outcome.splits)

lemma launch_registry:
  "execution_sessions (snd (launch env language code_file exe files w)) = execution_sessions w
   \<or> execution_sessions (snd (launch env language code_file exe files w)) =
       AList.update (uuid4 env) (next_ref w) (execution_sessions w)
   \<or> execution_sessions (snd (launch env language code_file exe files w)) =
       AList.delete (uuid4 env) (execution_sessions w)"
  by (simp add: launch_def Let_def delete_update_same split: popen_outcome.splits prod.splits)

lemma execute_code_absent:
  assumes "map_of (execution_sessions w) sid = None" and "uuid4 env \<noteq> sid"
  shows "map_of (execution_sessions (snd (execute_code env code language w))) sid = None"
proof (cases "lower language \<notin> set [''python'', ''c'', ''cpp'']")
  case True
  with assms show ?thesis by (simp add: execute_code_def Let_def)
next
  case False
  define w1 where "w1 = w\<lparr>fs := (fs w)(mkdtemp env \<mapsto> Dir,
    path_join (IS_WINDOWS w) (mkdtemp env) (''code'' @ get_file_extension (lower language)) \<mapsto> File)\<rparr>"
  have reg1: "execution_sessions w1 = execution_sessions w" by (simp add: w1_def)
  show ?thesis
  proof (cases "compile_program env (lower language) (mkdtemp env)
      (path_join (IS_WINDOWS w) (mkdtemp env) (''code'' @ get_file_extension (lower language)))
      [mkdtemp env, path_join (IS_WINDOWS w) (mkdtemp env) (''code'' @ get_file_extension (lower language))] w1")
    case (Inl a)
    obtain resp w' where a: "a = (resp, w')" by (cases a)
    from compile_program_registry(1) [OF Inl [unfolded a]] reg1
    have "execution_sessions w' = execution_sessions w" by simp
    with False Inl a assms show ?thesis
      by (simp add: execute_code_def Let_def w1_def)
  next
    case (Inr b)
    obtain exe files' w2 where b: "b = (exe, files', w2)" by (cases b)
    from compile_program_registry(2) [OF Inr [unfolded b]] reg1
    have reg2: "execution_sessions w2 = execution_sessions w" by simp
    have "map_of (execution_sessions (snd (launch env (lower language)
        (path_join (IS_WINDOWS w) (mkdtemp env) (''code'' @ get_file_extension (lower language)))
        exe files' w2))) sid = None"
      using launch_registry [of env "lower language"
          "path_join (IS_WINDOWS w) (mkdtemp env) (''code'' @ get_file_extension (lower language))"
          exe files' w2] reg2 assms
      by (auto simp: delete_conv' update_conv')
    with False Inr b assms show ?thesis
      by (simp add: execute_code_def Let_def w1_def)
  qed
qed

lemma act_absent:
  assumes "map_of (execution_sessions w) sid = None" and "\<not> draws sid a"
  shows "map_of (execution_sessions (act a w)) sid = None"
proof (cases a)
  case (Call c sid')
  with assms perform_absent show ?thesis by simp
next
  case (Start env code language)
  with assms execute_code_absent show ?thesis by simp
next
  case Reap
  with assms remove_sessions_absent show ?thesis by (simp add: cleanup_old_sessions_def)
next
  case (Work r e)
  with assms show ?thesis by simp
qed

lemma fold_act_absent:
  "map_of (execution_sessions w) sid = None \<Longrightarrow> list_all (\<lambda>a. \<not> draws sid a) later \<Longrightarrow>
   map_of (execution_sessions (fold act later w)) sid = None"
proof (induction later arbitrary: w)
  case Nil
  then show ?case by simp
next
  case (Cons a as)
  from Cons.prems have "map_of (execution_sessions (act a w)) sid = None"
    by (simp add: act_absent)
  with Cons show ?case by simp
qed

lemma perform_final_absent:
  assumes "final (fst (perform c sid w))"
  shows "map_of (execution_sessions (snd (perform c sid w))) sid = None"
proof (cases c)
  case (Submit_input env user_input)
  with assms show ?thesis
    by (auto simp: provide_input_def Let_def delete_conv' split: option.splits prod.splits if_splits)
next
  case Poll_status
  with assms show ?thesis
    by (auto simp: check_status_def Let_def delete_conv' split: option.splits prod.splits if_splits)
next
  case (Terminate wait_result)
  with assms show ?thesis
    by (auto simp: terminate_session_def Let_def delete_conv' split: option.splits)
qed

lemma perform_unknown:
  assumes "map_of (execution_sessions w) sid = None"
  shows "perform c sid w = (Error_response ''Invalid session ID'' 400, w)"
  using assms
  by (cases c) (simp_all add: provide_input_def check_status_def terminate_session_def)

text \<open>
  C1. Once submit-input, poll-status or terminate has answered COMPLETED or TERMINATED
  for an id, the id is out of the registry, and it stays out whatever happens next
  (calls on any id, start requests that draw another id, rounds of the reaper, steps of
  the workers): each later submit-input, poll-status or terminate on that id answers
  with the unknown-session error and changes nothing.
\<close>

theorem finalized_id_unknown:
  assumes "final (fst (perform c sid w))"
    and "list_all (\<lambda>a. \<not> draws sid a) later"
  shows "perform c' sid (fold act later (snd (perform c sid w))) =
           (Error_response ''Invalid session ID'' 400, fold act later (snd (perform c sid w)))"
  by (rule perform_unknown, rule fold_act_absent, rule perform_final_absent, fact+)

theorem finalized_id_unknown_witness:
  "final (fst (perform Poll_status ''77c1'' server))
   \<and> list_all (\<lambda>a. \<not> draws ''77c1'' a) [Reap, Call (Terminate None) ''0f8e'', Work 1 (Exits 0)]
   \<and> fst (perform (Submit_input quiet ''25'') ''77c1''
          (fold act [Reap, Call (Terminate None) ''0f8e'', Work 1 (Exits 0)]
             (snd (perform Poll_status ''77c1'' server)))) =
       Error_response ''Invalid session ID'' 400"
proof -
  have h1: "final (fst (perform Poll_status ''77c1'' server))"
    by (simp add: check_status_def server_def exited_def new_session_def new_process_def
        poll_def Let_def)
  have h2: "list_all (\<lambda>a. \<not> draws ''77c1'' a)
              [Reap, Call (Terminate None) ''0f8e'', Work 1 (Exits 0)]"
    by simp
  from finalized_id_unknown [OF h1 h2, of "Submit_input quiet ''25''"] h1 h2
  show ?thesis by simp
qed

section \<open>Draining and scratch files\<close>

lemma drain_all_eq:
  "drain_all q out err =
     (out @ map snd (filter (\<lambda>m. fst m = ''output'') q),
      err @ map snd (filter (\<lambda>m. fst m \<noteq> ''output'') q))"
  by (induction q out err rule: drain_all.induct) simp_all

lemma cleanup_temp_files_keeps_absent:
  "files p = None \<Longrightarrow> cleanup_temp_files windows paths files p = None"
proof (induction paths arbitrary: files)
  case Nil
  then show ?case by simp
next
  case (Cons x xs)
  have "(case files x of None \<Rightarrow> files | Some Dir \<Rightarrow> rmtree windows x files
          | Some File \<Rightarrow> unlink x files) p = None"
    using Cons.prems by (simp add: rmtree_def unlink_def split: option.splits node.splits)
  then show ?case using Cons.IH by simp
qed

lemma cleanup_temp_files_released:
  "p \<in> set paths \<Longrightarrow> cleanup_temp_files windows paths files p = None"
proof (induction paths arbitrary: files)
  case Nil
  then show ?case by simp
next
  case (Cons x xs)
  show ?case
  proof (cases "p = x")
    case True
    have "(case files x of None \<Rightarrow> files | Some Dir \<Rightarrow> rmtree windows x files
            | Some File \<Rightarrow> unlink x files) x = None"
      by (simp add: rmtree_def unlink_def split: option.splits node.splits)
    with True show ?thesis by (simp add: cleanup_temp_files_keeps_absent)
  next
    case False
    with Cons show ?thesis by simp
  qed
qed

section \<open>Submit-input on a process that has exited\<close>

text \<open>
  C10. When submit-input finds the process of a registered session already exited, it
  answers COMPLETED with an empty output and the error text \<open>Process has already
  terminated\<close>, whatever lines are still in the output queue; the id leaves the
  registry, so that no later call on the id returns those lines either: each answers
  with the unknown-session error.
\<close>

theorem provide_input_after_exit:
  assumes "map_of (execution_sessions w) sid = Some r"
    and "poll (process (heap w r)) \<noteq> None"
  shows "fst (provide_input env sid user_input w) =
           Completed [] ''Process has already terminated''
         \<and> (list_all (\<lambda>a. \<not> draws sid a) later \<longrightarrow>
              fst (perform c sid (fold act later (snd (provide_input env sid user_input w)))) =
                Error_response ''Invalid session ID'' 400)"
proof -
  have resp: "fst (provide_input env sid user_input w) =
                Completed [] ''Process has already terminated''"
    using assms by (simp add: provide_input_def Let_def)
  have gone: "map_of (execution_sessions (snd (provide_input env sid user_input w))) sid = None"
    using assms by (simp add: provide_input_def Let_def delete_conv')
  have "fst (perform c sid (fold act later (snd (provide_input env sid user_input w)))) =
          Error_response ''Invalid session ID'' 400"
    if "list_all (\<lambda>a. \<not> draws sid a) later"
    using perform_unknown [OF fold_act_absent [OF gone that]] by simp
  with resp show ?thesis by blast
qed

theorem provide_input_after_exit_witness:
  "output_queue (heap server 1) = [(''output'', ''Hello, World!'')]
   \<and> fst (provide_input quiet ''77c1'' ''25'' server) =
       Completed [] ''Process has already terminated''
   \<and> fst (perform Poll_status ''77c1''
            (fold act [Reap] (snd (provide_input quiet ''77c1'' ''25'' server)))) =
       Error_response ''Invalid session ID'' 400"
proof -
  have h1: "map_of (execution_sessions server) ''77c1'' = Some 1"
    by (simp add: server_def)
  have h2: "poll (process (heap server 1)) \<noteq> None"
    by (simp add: server_def exited_def new_session_def new_process_def poll_def)
  have h3: "output_queue (heap server 1) = [(''output'', ''Hello, World!'')]"
    by (simp add: server_def exited_def new_session_def)
  from provide_input_after_exit [OF h1 h2, of quiet "''25''" "[Reap]" Poll_status] h3
  show ?thesis by simp
qed

section \<open>Poll-status\<close>

text \<open>
  C6. Poll-status on a registered session drains the output queue once, as it stands:
  the answer carries the queued stdout lines and the queued other lines, joined, and
  the queue is empty afterwards. If the process has exited the answer is COMPLETED and
  the session is finalized (sentinel to the feeder, scratch files released, id out of
  the registry); otherwise the answer is RUNNING with the waiting flag the session had,
  and registry and files are as before. In both cases the waiting flag of the session
  is what it was.
\<close>

theorem check_status_registered:
  assumes "map_of (execution_sessions w) sid = Some r"
  shows "fst (check_status sid w) =
           (if poll (process (heap w r)) \<noteq> None
            then Completed
                   (join_lines (map snd (filter (\<lambda>m. fst m = ''output'') (output_queue (heap w r)))))
                   (join_lines (map snd (filter (\<lambda>m. fst m \<noteq> ''output'') (output_queue (heap w r)))))
            else Running
                   (join_lines (map snd (filter (\<lambda>m. fst m = ''output'') (output_queue (heap w r)))))
                   (join_lines (map snd (filter (\<lambda>m. fst m \<noteq> ''output'') (output_queue (heap w r)))))
                   (is_waiting_for_input (heap w r)))
         \<and> is_waiting_for_input (heap (snd (check_status sid w)) r) =
             is_waiting_for_input (heap w r)
         \<and> output_queue (heap (snd (check_status sid w)) r) = []
         \<and> (if poll (process (heap w r)) \<noteq> None
            then map_of (execution_sessions (snd (check_status sid w))) sid = None
                 \<and> input_queue (heap (snd (check_status sid w)) r) =
                     input_queue (heap w r) @ [None]
                 \<and> fs (snd (check_status sid w)) =
                     cleanup_temp_files (IS_WINDOWS w) (temp_files (heap w r)) (fs w)
            else execution_sessions (snd (check_status sid w)) = execution_sessions w
                 \<and> input_queue (heap (snd (check_status sid w)) r) = input_queue (heap w r)
                 \<and> fs (snd (check_status sid w)) = fs w)"
  using assms
  by (simp add: check_status_def drain_all_eq Let_def delete_conv')

theorem check_status_registered_witness:
  "fst (check_status ''0f8e''
          (act (Work 0 (Stdout (Line ''Enter your name: ''))) server)) =
     Running ''Enter your name:'' [] True
   \<and> fst (check_status ''77c1'' server) = Completed ''Hello, World!'' []
   \<and> map_of (execution_sessions (snd (check_status ''77c1'' server))) ''77c1'' = None"
proof -
  let ?w = "act (Work 0 (Stdout (Line ''Enter your name: ''))) server"
  have h1: "map_of (execution_sessions ?w) ''0f8e'' = Some 0"
    by (simp add: server_def)
  have h2: "map_of (execution_sessions server) ''77c1'' = Some 1"
    by (simp add: server_def)
  have s0: "heap ?w 0 =
      prompting\<lparr>output_queue := [(''output'', ''Enter your name:'')],
                is_waiting_for_input := True\<rparr>"
    by (simp add: server_def prompting_def new_session_def new_process_def poll_def Let_def
        rstrip_def isspace_def lower_def lower_char_def any_keyword_in_def prompt_keywords_def)
  have s1: "poll (process (heap server 1)) \<noteq> None"
           "output_queue (heap server 1) = [(''output'', ''Hello, World!'')]"
    by (simp_all add: server_def exited_def new_session_def new_process_def poll_def)
  from check_status_registered [OF h1] check_status_registered [OF h2] s0 s1
  show ?thesis
    by (simp add: prompting_def new_session_def new_process_def poll_def)
qed

section \<open>Finalization and the feeder's sentinel\<close>

lemma remove_sessions_heap: "heap (remove_sessions sids w) = heap w"
proof (induction sids arbitrary: w)
  case Nil
  show ?case by simp
next
  case (Cons x xs)
  then show ?case by (simp split: option.splits)
qed

lemma cleanup_old_sessions_heap: "heap (cleanup_old_sessions w) = heap w"
  by (simp add: cleanup_old_sessions_def remove_sessions_heap)

lemma provide_input_exited_heap:
  "map_of (execution_sessions w) sid = Some r \<Longrightarrow> poll (process (heap w r)) \<noteq> None \<Longrightarrow>
   heap (snd (provide_input env sid user_input w)) = heap w"
  by (simp add: provide_input_def Let_def)

text \<open>
  C2 says that every finalization releases the scratch files, sends the feeder its
  sentinel and removes the id. Here a session whose process has exited, with an empty
  input queue, is finalized in three ways. Poll-status puts the sentinel in the queue.
  Submit-input and the reaper remove the id and release the files, and leave the input
  queue empty: no sentinel is sent.
\<close>

theorem exited_session_finalized_without_sentinel:
  "input_queue (heap server 1) = []
   \<and> poll (process (heap server 1)) = Some 0
   \<and> input_queue (heap (snd (check_status ''77c1'' server)) 1) = [None]
   \<and> map_of (execution_sessions (snd (provide_input quiet ''77c1'' ''25'' server))) ''77c1'' = None
   \<and> fs (snd (provide_input quiet ''77c1'' ''25'' server)) ''/tmp/tmpzz90'' = None
   \<and> input_queue (heap (snd (provide_input quiet ''77c1'' ''25'' server)) 1) = []
   \<and> map_of (execution_sessions (cleanup_old_sessions server)) ''77c1'' = None
   \<and> fs (cleanup_old_sessions server) ''/tmp/tmpzz90'' = None
   \<and> input_queue (heap (cleanup_old_sessions server) 1) = []"
proof -
  have h1: "map_of (execution_sessions server) ''77c1'' = Some 1"
    by (simp add: server_def)
  have h2: "poll (process (heap server 1)) = Some 0"
    by (simp add: server_def exited_def new_session_def new_process_def poll_def)
  have h3: "input_queue (heap server 1) = []"
    by (simp add: server_def exited_def new_session_def)
  have h4: "temp_files (heap server 1) = [''/tmp/tmpzz90'', ''/tmp/tmpzz90/code.py'']"
    by (simp add: server_def exited_def new_session_def)
  have a: "input_queue (heap (snd (check_status ''77c1'' server)) 1) = [None]"
    using h1 h2 h3 by (simp add: check_status_def Let_def split: prod.splits)
  have b: "map_of (execution_sessions (snd (provide_input quiet ''77c1'' ''25'' server))) ''77c1'' = None"
    using h1 h2 by (simp add: provide_input_def Let_def delete_conv')
  have "fs (snd (provide_input quiet ''77c1'' ''25'' server)) =
          cleanup_temp_files (IS_WINDOWS server) (temp_files (heap server 1)) (fs server)"
    using h1 h2 by (simp add: provide_input_def Let_def)
  moreover have "''/tmp/tmpzz90'' \<in> set (temp_files (heap server 1))"
    using h4 by simp
  ultimately have c: "fs (snd (provide_input quiet ''77c1'' ''25'' server)) ''/tmp/tmpzz90'' = None"
    by (simp only: cleanup_temp_files_released)
  have d: "input_queue (heap (snd (provide_input quiet ''77c1'' ''25'' server)) 1) = []"
    using h1 h2 h3 by (simp add: provide_input_exited_heap)
  have sweep: "cleanup_old_sessions server =
      server\<lparr>fs := cleanup_temp_files False [''/tmp/tmpzz90'', ''/tmp/tmpzz90/code.py''] (fs server),
             execution_sessions := [(''0f8e'', 0)]\<rparr>"
    by (simp add: cleanup_old_sessions_def server_def exited_def prompting_def new_session_def
        new_process_def poll_def)
  have e: "map_of (execution_sessions (cleanup_old_sessions server)) ''77c1'' = None"
    by (simp add: sweep)
  have "fs (cleanup_old_sessions server) =
          cleanup_temp_files False [''/tmp/tmpzz90'', ''/tmp/tmpzz90/code.py''] (fs server)"
    by (simp add: sweep)
  moreover have "''/tmp/tmpzz90'' \<in> set [''/tmp/tmpzz90'', ''/tmp/tmpzz90/code.py'']"
    by simp
  ultimately have f: "fs (cleanup_old_sessions server) ''/tmp/tmpzz90'' = None"
    by (simp only: cleanup_temp_files_released)
  have g: "input_queue (heap (cleanup_old_sessions server) 1) = []"
    using h3 by (simp add: cleanup_old_sessions_heap)
  from h2 h3 a b c d e f g show ?thesis by simp
qed

section \<open>The waiting flag during a window\<close>

lemma any_keyword_in_Nil: "\<not> any_keyword_in []"
  by (simp add: any_keyword_in_def prompt_keywords_def)

lemma worker_step_flag:
  "is_waiting_for_input (worker_step e s) = (is_waiting_for_input s \<or> fires e)"
proof (cases e)
  case (Stdout r)
  show ?thesis
  proof (cases r)
    case (Line line)
    with Stdout show ?thesis
      using any_keyword_in_Nil by (cases "line = []") (auto simp: Let_def lower_def)
  next
    case (Raises x)
    with Stdout show ?thesis by simp
  qed
next
  case (Stderr r)
  then show ?thesis using error_reader_flag [of "[r]" s] by simp
next
  case (Feeder write_raises)
  then show ?thesis
    by (auto simp: input_writer_def input_writer_iter_def Let_def
        split: list.splits option.splits)
next
  case (Exits rc)
  then show ?thesis by simp
next
  case Tick
  then show ?thesis by simp
qed

lemma run_events_flag:
  "is_waiting_for_input (run_events es s) = (is_waiting_for_input s \<or> heuristic_fired es)"
  unfolding run_events_def heuristic_fired_def
  by (induction es arbitrary: s) (auto simp: worker_step_flag)

lemma fires_Tick: "\<not> fires Tick"
  by simp

lemma drain_window_flag:
  "is_waiting_for_input (fst (drain_window es s out err)) =
     (is_waiting_for_input s \<or> heuristic_fired (elapsed es s))"
proof (induction es s out err rule: drain_window.induct)
  case (1 s out err)
  show ?case by (simp add: heuristic_fired_def)
next
  case (2 es s out err)
  then show ?case
    by (cases "output_queue s") (auto simp: heuristic_fired_def split: if_splits)
qed (auto simp del: worker_step.simps simp add: worker_step_flag heuristic_fired_def)

lemma heuristic_fired_append:
  "heuristic_fired (xs @ ys) = (heuristic_fired xs \<or> heuristic_fired ys)"
  by (simp add: heuristic_fired_def)

lemma warm_up_flag:
  "is_waiting_for_input (fst (warm_up env s)) =
     (is_waiting_for_input s \<or> heuristic_fired (warm_up_events env s))"
proof -
  obtain s2 out err where
    d: "drain_window (window_events env) (run_events (sleep_events env) s) [] [] = (s2, out, err)"
    by (cases "drain_window (window_events env) (run_events (sleep_events env) s) [] []")
  have "is_waiting_for_input s2 =
          (is_waiting_for_input (run_events (sleep_events env) s)
           \<or> heuristic_fired (elapsed (window_events env) (run_events (sleep_events env) s)))"
    using drain_window_flag [of "window_events env" "run_events (sleep_events env) s" "[]" "[]"] d
    by simp
  then show ?thesis
    by (auto simp: warm_up_def d warm_up_events_def run_events_flag heuristic_fired_append)
qed

section \<open>The first answer of a start request\<close>

lemma launch_running:
  assumes "fst (launch env language code_file exe files w) =
             Running_session sid out_text err_text waiting"
  shows "case warm_up env (new_session (uuid4 env) files) of
           (session, initial_output, initial_errors) \<Rightarrow>
             poll (process session) = None
             \<and> sid = uuid4 env
             \<and> out_text = join_lines initial_output
             \<and> err_text = join_lines initial_errors
             \<and> waiting =
                 (heuristic_fired (warm_up_events env (new_session (uuid4 env) files))
                  \<or> (initial_output = [] \<and> initial_errors = []))"
proof -
  obtain session out err where
    wu: "warm_up env (new_session (uuid4 env) files) = (session, out, err)"
    by (cases "warm_up env (new_session (uuid4 env) files)")
  have flag: "is_waiting_for_input session =
                heuristic_fired (warm_up_events env (new_session (uuid4 env) files))"
    using warm_up_flag [of env "new_session (uuid4 env) files"] wu
    by (simp add: new_session_def)
  from assms wu flag show ?thesis
    by (auto simp: launch_def Let_def split: popen_outcome.splits if_splits)
qed

lemma execute_code_unsupported:
  "lower language \<notin> set [''python'', ''c'', ''cpp''] \<Longrightarrow>
   execute_code env code language w = (Error_response ''Unsupported language'' 400, w)"
  by (simp add: execute_code_def Let_def)

lemma execute_code_supported:
  assumes "lower language \<in> set [''python'', ''c'', ''cpp'']"
  shows "execute_code env code language w =
     (case compile_program env (lower language) (mkdtemp env)
             (path_join (IS_WINDOWS w) (mkdtemp env)
                (''code'' @ get_file_extension (lower language)))
             [mkdtemp env,
              path_join (IS_WINDOWS w) (mkdtemp env)
                (''code'' @ get_file_extension (lower language))]
             (w\<lparr>fs := (fs w)(mkdtemp env \<mapsto> Dir,
                  path_join (IS_WINDOWS w) (mkdtemp env)
                    (''code'' @ get_file_extension (lower language)) \<mapsto> File)\<rparr>) of
        Inl answer \<Rightarrow> answer
      | Inr (executable_path, files, w2) \<Rightarrow>
          launch env (lower language)
            (path_join (IS_WINDOWS w) (mkdtemp env)
               (''code'' @ get_file_extension (lower language)))
            executable_path files w2)"
proof -
  from assms have n: "\<not> lower language \<notin> set [''python'', ''c'', ''cpp'']"
    by simp
  show ?thesis
    unfolding execute_code_def Let_def by (subst if_not_P [OF n]) (rule refl)
qed

lemma compile_program_fails:
  "compile_program env language temp_dir code_file files w = Inl (resp, w') \<Longrightarrow> failed resp"
  by (auto simp: compile_program_def after_compile_def Let_def
      split: if_splits option.splits run_outcome.splits)

text \<open>
  C3. When a start request answers RUNNING (the process is still running after the
  warm-up), the reported \<open>waiting_for_input\<close> is true exactly when the keyword
  heuristic fired on some line that the stdout reader read during the warm-up, or the
  drain of the warm-up window captured no stdout line and no error line. So it is true
  whenever the heuristic fired, and true whenever nothing at all was captured.
\<close>

theorem execute_code_running_waiting:
  assumes "fst (execute_code env code language w) =
             Running_session sid out_text err_text waiting"
  shows "\<exists>files.
           case warm_up env (new_session (uuid4 env) files) of
             (session, initial_output, initial_errors) \<Rightarrow>
               poll (process session) = None
               \<and> sid = uuid4 env
               \<and> out_text = join_lines initial_output
               \<and> err_text = join_lines initial_errors
               \<and> waiting =
                   (heuristic_fired (warm_up_events env (new_session (uuid4 env) files))
                    \<or> (initial_output = [] \<and> initial_errors = []))"
proof -
  let ?code_file = "path_join (IS_WINDOWS w) (mkdtemp env)
                      (''code'' @ get_file_extension (lower language))"
  let ?w1 = "w\<lparr>fs := (fs w)(mkdtemp env \<mapsto> Dir, ?code_file \<mapsto> File)\<rparr>"
  have supported: "lower language \<in> set [''python'', ''c'', ''cpp'']"
  proof (rule ccontr)
    assume "lower language \<notin> set [''python'', ''c'', ''cpp'']"
    from execute_code_unsupported [OF this] assms show False by simp
  qed
  note unfolded = execute_code_supported [OF supported, of env code w]
  show ?thesis
  proof (cases "compile_program env (lower language) (mkdtemp env) ?code_file
                  [mkdtemp env, ?code_file] ?w1")
    case (Inl a)
    obtain resp w' where a: "a = (resp, w')" by (cases a)
    with Inl assms unfolded have "resp = Running_session sid out_text err_text waiting"
      by simp
    moreover from Inl a have "failed resp"
      by (simp add: compile_program_fails)
    ultimately have False by simp
    then show ?thesis ..
  next
    case (Inr b)
    obtain exe files w2 where b: "b = (exe, files, w2)" by (cases b)
    with Inr assms unfolded
    have "fst (launch env (lower language) ?code_file exe files w2) =
            Running_session sid out_text err_text waiting"
      by simp
    from launch_running [OF this] show ?thesis ..
  qed
qed

theorem execute_code_running_waiting_witness:
  "fst (execute_code quiet ''input()'' ''Python'' idle) = Running_session ''c4a6'' [] [] True
   \<and> fst (execute_code asking ''input()'' ''python'' idle) =
       Running_session ''c4a6'' ''What is your name?'' [] True
   \<and> fst (execute_code greeting ''input()'' ''python'' idle) =
       Running_session ''c4a6'' ''Hello'' [] False
   \<and> (\<exists>files.
         case warm_up quiet (new_session (uuid4 quiet) files) of
           (session, initial_output, initial_errors) \<Rightarrow>
             poll (process session) = None
             \<and> ''c4a6'' = uuid4 quiet
             \<and> [] = join_lines initial_output
             \<and> [] = join_lines initial_errors
             \<and> True =
                 (heuristic_fired (warm_up_events quiet (new_session (uuid4 quiet) files))
                  \<or> (initial_output = [] \<and> initial_errors = [])))"
proof -
  have h1: "fst (execute_code quiet ''input()'' ''Python'' idle) =
              Running_session ''c4a6'' [] [] True"
    by (simp add: execute_code_def compile_program_def launch_def warm_up_def run_events_def
        get_run_command_def get_file_extension_def path_join_def sep_def
        quiet_def idle_def new_session_def new_process_def poll_def
        lower_def lower_char_def Let_def)
  have h2: "fst (execute_code asking ''input()'' ''python'' idle) =
              Running_session ''c4a6'' ''What is your name?'' [] True"
    by (simp add: execute_code_def compile_program_def launch_def warm_up_def run_events_def
        get_run_command_def get_file_extension_def path_join_def sep_def
        asking_def quiet_def idle_def new_session_def new_process_def poll_def
        rstrip_def isspace_def any_keyword_in_def prompt_keywords_def
        lower_def lower_char_def Let_def)
  have h3: "fst (execute_code greeting ''input()'' ''python'' idle) =
              Running_session ''c4a6'' ''Hello'' [] False"
    by (simp add: execute_code_def compile_program_def launch_def warm_up_def run_events_def
        get_run_command_def get_file_extension_def path_join_def sep_def
        greeting_def quiet_def idle_def new_session_def new_process_def poll_def
        rstrip_def isspace_def any_keyword_in_def prompt_keywords_def
        lower_def lower_char_def Let_def)
  from execute_code_running_waiting [OF h1] h1 h2 h3 show ?thesis
    by (intro conjI)
qed

section \<open>The waiting estimate of submit-input\<close>

lemma last_filter_kept:
  "xs \<noteq> [] \<Longrightarrow> P (last xs) \<Longrightarrow> filter P xs \<noteq> [] \<and> last (filter P xs) = last xs"
proof (induction xs)
  case Nil
  then show ?case by simp
next
  case (Cons x xs)
  show ?case
  proof (cases "xs = []")
    case True
    with Cons.prems show ?thesis by simp
  next
    case False
    with Cons have "filter P xs \<noteq> [] \<and> last (filter P xs) = last xs" by simp
    with False show ?thesis by simp
  qed
qed

lemma last_nonempty_line:
  assumes "captured = [] \<or> last captured \<noteq> []"
  shows "waiting_from_last_nonempty_line captured =
           (captured \<noteq> [] \<and> any_keyword_in (lower (last captured)))"
proof (cases "captured = []")
  case True
  then show ?thesis by (simp add: waiting_from_last_nonempty_line_def)
next
  case False
  with assms have "last captured \<noteq> []" by simp
  from last_filter_kept [of captured "\<lambda>line. line \<noteq> []", OF False this] False
  show ?thesis by (simp add: waiting_from_last_nonempty_line_def Let_def)
qed

text \<open>
  C4, as the code has it. When submit-input on a registered session answers RUNNING,
  the reported \<open>waiting_for_input\<close> is recomputed from the stdout lines captured by
  the drain of this call: it is true exactly when at least one stdout line was captured
  and the last captured one, lowercased, contains a keyword. The last captured line is
  taken as it is, a blank line included; the session's flag is set to the same value,
  whatever it was before. When the last captured line is not empty (or nothing was
  captured) this is the heuristic on the last non-empty captured line.
\<close>

theorem provide_input_running_waiting:
  assumes "map_of (execution_sessions w) sid = Some r"
    and "fst (provide_input env sid user_input w) = Running out_text err_text waiting"
  shows "case drain_window (window_events env)
                (run_events (sleep_events env)
                   ((heap w r)\<lparr>input_queue := input_queue (heap w r) @ [Some user_input],
                              is_waiting_for_input := False\<rparr>)) [] [] of
           (s2, output_lines, error_lines) \<Rightarrow>
             waiting = (output_lines \<noteq> [] \<and> any_keyword_in (lower (last output_lines)))
             \<and> is_waiting_for_input (heap (snd (provide_input env sid user_input w)) r) = waiting
             \<and> out_text = join_lines output_lines
             \<and> err_text = join_lines error_lines
             \<and> (output_lines = [] \<or> last output_lines \<noteq> [] \<longrightarrow>
                  waiting = waiting_from_last_nonempty_line output_lines)"
proof -
  obtain s2 output_lines error_lines where
    d: "drain_window (window_events env)
          (run_events (sleep_events env)
             ((heap w r)\<lparr>input_queue := input_queue (heap w r) @ [Some user_input],
                        is_waiting_for_input := False\<rparr>)) [] [] =
        (s2, output_lines, error_lines)"
    by (cases "drain_window (window_events env)
          (run_events (sleep_events env)
             ((heap w r)\<lparr>input_queue := input_queue (heap w r) @ [Some user_input],
                        is_waiting_for_input := False\<rparr>)) [] []")
  have alive: "poll (process (heap w r)) = None"
    using assms by (auto simp: provide_input_def Let_def split: if_splits)
  have alive': "poll (process (run_events (after_events env) s2)) = None"
    using assms alive d
    by (auto simp: provide_input_def Let_def split: if_splits prod.splits)
  have resp: "provide_input env sid user_input w =
      (Running (join_lines output_lines) (join_lines error_lines)
         (output_lines \<noteq> [] \<and> any_keyword_in (lower (last output_lines))),
       w\<lparr>heap := (heap w)(r := (run_events (after_events env) s2)
          \<lparr>is_waiting_for_input :=
             (output_lines \<noteq> [] \<and> any_keyword_in (lower (last output_lines)))\<rparr>)\<rparr>)"
    using assms(1) alive alive' d by (simp add: provide_input_def Let_def)
  from assms(2) have
    "waiting = (output_lines \<noteq> [] \<and> any_keyword_in (lower (last output_lines)))"
    "out_text = join_lines output_lines" "err_text = join_lines error_lines"
    unfolding resp by simp_all
  moreover have
    "is_waiting_for_input (heap (snd (provide_input env sid user_input w)) r) =
       (output_lines \<noteq> [] \<and> any_keyword_in (lower (last output_lines)))"
    unfolding resp by simp
  ultimately show ?thesis
    using last_nonempty_line [of output_lines] by (auto simp: d)
qed

theorem provide_input_running_waiting_witness:
  "map_of (execution_sessions server) ''0f8e'' = Some 0
   \<and> fst (provide_input asking ''0f8e'' ''Ann'' server) =
       Running ''What is your name?'' [] True
   \<and> is_waiting_for_input (heap (snd (provide_input asking ''0f8e'' ''Ann'' server)) 0)
   \<and> waiting_from_last_nonempty_line [''What is your name?'']"
proof -
  have h1: "map_of (execution_sessions server) ''0f8e'' = Some 0"
    by (simp add: server_def)
  have h2: "fst (provide_input asking ''0f8e'' ''Ann'' server) =
              Running ''What is your name?'' [] True"
    by (simp add: provide_input_def run_events_def asking_def quiet_def server_def
        prompting_def new_session_def new_process_def poll_def
        rstrip_def isspace_def any_keyword_in_def prompt_keywords_def
        lower_def lower_char_def Let_def)
  have d: "drain_window (window_events asking)
             (run_events (sleep_events asking)
                ((heap server 0)\<lparr>input_queue := input_queue (heap server 0) @ [Some ''Ann''],
                                is_waiting_for_input := False\<rparr>)) [] [] =
           (prompting\<lparr>input_queue := [Some ''Ann''], is_waiting_for_input := True\<rparr>,
            [''What is your name?''], [])"
    by (simp add: run_events_def asking_def quiet_def server_def
        prompting_def new_session_def new_process_def poll_def
        rstrip_def isspace_def any_keyword_in_def prompt_keywords_def
        lower_def lower_char_def Let_def)
  from provide_input_running_waiting [OF h1 h2] h1 h2 show ?thesis
    by (simp add: d)
qed

text \<open>
  C4 as the specification states it fails when the process prints a prompt and then a
  blank line: the drain captures \<open>Your age:\<close> and the empty line, the last non-empty
  captured line contains a keyword, and the answer reports \<open>waiting_for_input\<close>
  false.
\<close>

theorem provide_input_blank_line_counterexample:
  "fst (provide_input blank_after_prompt ''0f8e'' ''Ann'' server) =
     Running (''Your age:'' @ [CHR 0x0A]) [] False
   \<and> fst (snd (drain_window (window_events blank_after_prompt)
                 (run_events (sleep_events blank_after_prompt)
                    ((heap server 0)\<lparr>input_queue := input_queue (heap server 0) @ [Some ''Ann''],
                                    is_waiting_for_input := False\<rparr>)) [] [])) =
       [''Your age:'', []]
   \<and> waiting_from_last_nonempty_line [''Your age:'', []]"
  by (simp add: provide_input_def run_events_def blank_after_prompt_def quiet_def server_def
      prompting_def new_session_def new_process_def poll_def
      rstrip_def isspace_def any_keyword_in_def prompt_keywords_def
      waiting_from_last_nonempty_line_def lower_def lower_char_def Let_def)

section \<open>Start requests that fail\<close>

lemma startswith_append: "startswith (xs @ ys) xs"
  by (simp add: startswith_iff)

lemma cleanup_temp_files_beneath:
  "list_all (\<lambda>p. p = d \<or> startswith p (d @ sep windows)) paths \<Longrightarrow>
   cleanup_temp_files windows paths (rmtree windows d files) = rmtree windows d files"
proof (induction paths)
  case Nil
  show ?case by simp
next
  case (Cons x xs)
  then have "rmtree windows d files x = None"
    by (auto simp: rmtree_def)
  with Cons show ?case by simp
qed

lemma cleanup_temp_files_directory:
  assumes "files d = Some Dir"
    and "list_all (\<lambda>p. p = d \<or> startswith p (d @ sep windows)) paths"
  shows "cleanup_temp_files windows (d # paths) files = rmtree windows d files"
  using assms by (simp add: cleanup_temp_files_beneath)

lemma rmtree_created:
  "startswith p (d @ sep windows) \<Longrightarrow>
   rmtree windows d (files(p \<mapsto> n)) = rmtree windows d files"
  "rmtree windows d (files(d \<mapsto> n)) = rmtree windows d files"
  by (auto simp: rmtree_def fun_eq_iff)

lemma compile_program_Inl:
  assumes "compile_program env language d cf paths w = Inl (resp, w')"
  shows "failed resp \<and> execution_sessions w' = execution_sessions w \<and> heap w' = heap w
         \<and> next_ref w' = next_ref w \<and> IS_WINDOWS w' = IS_WINDOWS w
         \<and> fs w' = cleanup_temp_files (IS_WINDOWS w) paths (fs w)"
  using assms
  by (auto simp: compile_program_def after_compile_def Let_def
      split: if_splits option.splits run_outcome.splits)

lemma compile_program_Inr:
  assumes "compile_program env language d cf paths w = Inr (exe, paths', w')"
  shows "execution_sessions w' = execution_sessions w \<and> heap w' = heap w
         \<and> next_ref w' = next_ref w \<and> IS_WINDOWS w' = IS_WINDOWS w
         \<and> ((paths' = paths \<and> fs w' = fs w)
            \<or> (paths' = paths @ [path_join (IS_WINDOWS w) d
                                     (''program'' @ get_executable_extension (IS_WINDOWS w))]
                \<and> fs w' = (fs w)(path_join (IS_WINDOWS w) d
                                   (''program'' @ get_executable_extension (IS_WINDOWS w))
                                 \<mapsto> File)))"
  using assms
  by (auto simp: compile_program_def after_compile_def Let_def
      split: if_splits option.splits run_outcome.splits)

lemma launch_failed:
  assumes "failed (fst (launch env language cf exe paths w))"
  shows "snd (launch env language cf exe paths w) =
           w\<lparr>fs := cleanup_temp_files (IS_WINDOWS w) paths (fs w)\<rparr>"
  using assms
  by (auto simp: launch_def Let_def split: popen_outcome.splits prod.splits if_splits)

text \<open>
  C8. A start request that answers with an error (unsupported language, compiler not
  found, compilation error, or an exception of the compile step or of the launch)
  registers no session: registry and session objects are as before. For an unsupported
  language nothing was allocated and the file system is as before. In the other cases
  the temporary directory and everything in it is gone when the request returns, the
  code file and the executable included, and the rest of the file system is as before.
\<close>

theorem execute_code_failure_releases:
  assumes "failed (fst (execute_code env code language w))"
  shows "execution_sessions (snd (execute_code env code language w)) = execution_sessions w
         \<and> heap (snd (execute_code env code language w)) = heap w
         \<and> next_ref (snd (execute_code env code language w)) = next_ref w
         \<and> (if lower language \<in> set [''python'', ''c'', ''cpp'']
            then fs (snd (execute_code env code language w)) =
                   rmtree (IS_WINDOWS w) (mkdtemp env) (fs w)
                 \<and> fs (snd (execute_code env code language w)) (mkdtemp env) = None
                 \<and> fs (snd (execute_code env code language w))
                     (source_file env (lower language) w) = None
                 \<and> fs (snd (execute_code env code language w)) (program_file env w) = None
            else snd (execute_code env code language w) = w)"
proof (cases "lower language \<in> set [''python'', ''c'', ''cpp'']")
  case False
  then show ?thesis by (simp add: execute_code_unsupported)
next
  case True
  let ?win = "IS_WINDOWS w"
  let ?d = "mkdtemp env"
  let ?cf = "path_join ?win ?d (''code'' @ get_file_extension (lower language))"
  let ?prog = "path_join ?win ?d (''program'' @ get_executable_extension ?win)"
  let ?w1 = "w\<lparr>fs := (fs w)(?d \<mapsto> Dir, ?cf \<mapsto> File)\<rparr>"
  let ?w' = "snd (execute_code env code language w)"
  note unfolded = execute_code_supported [OF True, of env code w]
  have cf: "startswith ?cf (?d @ sep ?win)" and prog: "startswith ?prog (?d @ sep ?win)"
    using startswith_append [of "?d @ sep ?win"] by (simp_all add: path_join_def)
  have fs1: "rmtree ?win ?d (fs ?w1) = rmtree ?win ?d (fs w)"
    using cf by (simp add: rmtree_created)
  have dir1: "fs ?w1 ?d = Some Dir"
    by (simp add: path_join_def sep_def)
  have gone: "rmtree ?win ?d (fs w) ?d = None" "rmtree ?win ?d (fs w) ?cf = None"
    "rmtree ?win ?d (fs w) ?prog = None"
    using cf prog by (simp_all add: rmtree_def)
  have main: "execution_sessions ?w' = execution_sessions w \<and> heap ?w' = heap w
      \<and> next_ref ?w' = next_ref w \<and> fs ?w' = rmtree ?win ?d (fs w)"
  proof (cases "compile_program env (lower language) ?d ?cf [?d, ?cf] ?w1")
    case (Inl a)
    obtain resp w2 where a: "a = (resp, w2)" by (cases a)
    from Inl a unfolded have w': "?w' = w2" by simp
    from compile_program_Inl [OF Inl [unfolded a]]
    have "execution_sessions w2 = execution_sessions w" "heap w2 = heap w"
      "next_ref w2 = next_ref w"
      "fs w2 = cleanup_temp_files ?win [?d, ?cf] (fs ?w1)"
      by simp_all
    moreover have "cleanup_temp_files ?win [?d, ?cf] (fs ?w1) = rmtree ?win ?d (fs ?w1)"
    proof (rule cleanup_temp_files_directory)
      show "fs ?w1 ?d = Some Dir" by (rule dir1)
      show "list_all (\<lambda>p. p = ?d \<or> startswith p (?d @ sep ?win)) [?cf]"
        using cf by simp
    qed
    ultimately show ?thesis by (simp only: w' fs1) 
  next
    case (Inr b)
    obtain exe paths w2 where b: "b = (exe, paths, w2)" by (cases b)
    let ?l = "launch env (lower language) ?cf exe paths w2"
    from Inr b unfolded have eq: "execute_code env code language w = ?l" by simp
    with assms have "failed (fst ?l)" by simp
    from launch_failed [OF this] eq
    have w': "?w' = w2\<lparr>fs := cleanup_temp_files (IS_WINDOWS w2) paths (fs w2)\<rparr>" by simp
    from compile_program_Inr [OF Inr [unfolded b]]
    have same: "execution_sessions w2 = execution_sessions w" "heap w2 = heap w"
      "next_ref w2 = next_ref w" "IS_WINDOWS w2 = ?win"
      and shape: "(paths = [?d, ?cf] \<and> fs w2 = fs ?w1)
                  \<or> (paths = [?d, ?cf] @ [?prog] \<and> fs w2 = (fs ?w1)(?prog \<mapsto> File))"
      by simp_all
    from shape have "cleanup_temp_files ?win paths (fs w2) = rmtree ?win ?d (fs w)"
    proof
      assume s: "paths = [?d, ?cf] \<and> fs w2 = fs ?w1"
      have "cleanup_temp_files ?win [?d, ?cf] (fs ?w1) = rmtree ?win ?d (fs ?w1)"
      proof (rule cleanup_temp_files_directory)
      show "fs ?w1 ?d = Some Dir" by (rule dir1)
      show "list_all (\<lambda>p. p = ?d \<or> startswith p (?d @ sep ?win)) [?cf]"
        using cf by simp
    qed
      with s fs1 show ?thesis by simp
    next
      assume s: "paths = [?d, ?cf] @ [?prog] \<and> fs w2 = (fs ?w1)(?prog \<mapsto> File)"
      have dir2: "((fs ?w1)(?prog \<mapsto> File)) ?d = Some Dir"
        by (simp add: path_join_def sep_def)
      have "cleanup_temp_files ?win (?d # [?cf, ?prog]) ((fs ?w1)(?prog \<mapsto> File)) =
              rmtree ?win ?d ((fs ?w1)(?prog \<mapsto> File))"
      proof (rule cleanup_temp_files_directory)
        show "((fs ?w1)(?prog \<mapsto> File)) ?d = Some Dir" by (rule dir2)
        show "list_all (\<lambda>p. p = ?d \<or> startswith p (?d @ sep ?win)) [?cf, ?prog]"
          using cf prog by simp
      qed
      moreover have "rmtree ?win ?d ((fs ?w1)(?prog \<mapsto> File)) = rmtree ?win ?d (fs ?w1)"
        using prog by (rule rmtree_created(1))
      ultimately show ?thesis using s fs1 by simp
    qed
    with same show ?thesis by (simp add: w')
  qed
  with True gone show ?thesis
    by (simp add: source_file_def program_file_def)
qed

theorem execute_code_failure_releases_witness:
  "fst (execute_code quiet ''int main(){}'' ''C'' server) =
     Error_details ''Compiler not found''
       ''Please install a C/C++ compiler (gcc/g++ or clang/clang++)'' 400
   \<and> fst (execute_code broken_build ''int main({}'' ''c'' server) =
       Error_details ''Compilation error'' ''code.c:1:1: error'' 400
   \<and> fst (execute_code no_interpreter ''print(1)'' ''python'' server) =
       Error_response ''[Errno 2] No such file'' 500
   \<and> fst (execute_code quiet ''puts 1'' ''ruby'' server) =
       Error_response ''Unsupported language'' 400
   \<and> execution_sessions (snd (execute_code quiet ''int main(){}'' ''C'' server)) =
       [(''0f8e'', 0), (''77c1'', 1)]
   \<and> execution_sessions (snd (execute_code broken_build ''int main({}'' ''c'' server)) =
       [(''0f8e'', 0), (''77c1'', 1)]
   \<and> execution_sessions (snd (execute_code no_interpreter ''print(1)'' ''python'' server)) =
       [(''0f8e'', 0), (''77c1'', 1)]
   \<and> fs (snd (execute_code quiet ''int main(){}'' ''C'' server)) ''/tmp/tmpq7k2'' = None
   \<and> fs (snd (execute_code broken_build ''int main({}'' ''c'' server)) ''/tmp/tmpq7k2/code.c'' = None
   \<and> fs (snd (execute_code no_interpreter ''print(1)'' ''python'' server)) ''/tmp/tmpq7k2/code.py'' = None
   \<and> snd (execute_code quiet ''puts 1'' ''ruby'' server) = server"
proof -
  have r1: "fst (execute_code quiet ''int main(){}'' ''C'' server) =
      Error_details ''Compiler not found''
        ''Please install a C/C++ compiler (gcc/g++ or clang/clang++)'' 400"
    by (simp add: execute_code_def compile_program_def after_compile_def
        get_compile_command_def get_file_extension_def get_executable_extension_def
        path_join_def sep_def quiet_def server_def lower_def lower_char_def Let_def)
  have r2: "fst (execute_code broken_build ''int main({}'' ''c'' server) =
      Error_details ''Compilation error'' ''code.c:1:1: error'' 400"
    by (simp add: execute_code_def compile_program_def after_compile_def
        get_compile_command_def get_file_extension_def get_executable_extension_def
        path_join_def sep_def broken_build_def quiet_def server_def lower_def lower_char_def
        Let_def)
  have r3: "fst (execute_code no_interpreter ''print(1)'' ''python'' server) =
      Error_response ''[Errno 2] No such file'' 500"
    by (simp add: execute_code_def compile_program_def launch_def get_run_command_def
        get_file_extension_def path_join_def sep_def no_interpreter_def quiet_def server_def
        lower_def lower_char_def Let_def)
  have r4: "fst (execute_code quiet ''puts 1'' ''ruby'' server) =
      Error_response ''Unsupported language'' 400"
    by (simp add: execute_code_def lower_def lower_char_def Let_def)
  have l: "lower ''C'' = ''c''" "lower ''c'' = ''c''" "lower ''python'' = ''python''"
    "lower ''ruby'' = ''ruby''"
    by (simp_all add: lower_def lower_char_def)
  have p: "mkdtemp quiet = ''/tmp/tmpq7k2''" "mkdtemp broken_build = ''/tmp/tmpq7k2''"
    "mkdtemp no_interpreter = ''/tmp/tmpq7k2''" "IS_WINDOWS server = False"
    "execution_sessions server = [(''0f8e'', 0), (''77c1'', 1)]"
    by (simp_all add: quiet_def broken_build_def no_interpreter_def server_def)
  have f1: "failed (fst (execute_code quiet ''int main(){}'' ''C'' server))"
    and f2: "failed (fst (execute_code broken_build ''int main({}'' ''c'' server))"
    and f3: "failed (fst (execute_code no_interpreter ''print(1)'' ''python'' server))"
    and f4: "failed (fst (execute_code quiet ''puts 1'' ''ruby'' server))"
    by (simp_all add: r1 r2 r3 r4)
  from execute_code_failure_releases [OF f1] execute_code_failure_releases [OF f2]
    execute_code_failure_releases [OF f3] execute_code_failure_releases [OF f4]
    r1 r2 r3 r4
  show ?thesis
    by (simp add: l p source_file_def get_file_extension_def path_join_def sep_def rmtree_def)
qed

section \<open>The compile step when the compiler is not found\<close>

lemma launch_run_log: "run_log (snd (launch env language cf exe paths w)) = run_log w"
  by (simp add: launch_def Let_def split: popen_outcome.splits prod.splits)

lemma launch_no_details: "fst (launch env language cf exe paths w) \<noteq> Error_details e d c"
  by (simp add: launch_def Let_def split: popen_outcome.splits prod.splits)

lemma get_compile_command_Some:
  "get_compile_command windows filepath language output_path = Some cmd \<Longrightarrow>
   language = ''c'' \<or> language = ''cpp''"
  by (auto simp: get_compile_command_def split: if_splits)

text \<open>
  C5, as the code has it. For a start request in a compiled language, when the first
  run of the compile command fails because the binary is not found, the compile step
  is run exactly once more. On Windows the second run uses the alternate compiler
  (\<open>clang\<close> after \<open>gcc\<close>, \<open>clang++\<close> after \<open>g++\<close>); on other platforms no alternate is
  set and the second run repeats the first command. The request fails with the
  compiler-not-found error exactly when the second run does not find its binary
  either.
\<close>

theorem compile_retried_once:
  assumes "get_compile_command (IS_WINDOWS w) (source_file env (lower language) w)
             (lower language) (program_file env w) = Some primary"
    and "subprocess_run env 0 primary = FileNotFoundError"
  shows "run_log (snd (execute_code env code language w)) =
           run_log w @
             [primary,
              alternative_command (IS_WINDOWS w) (lower language)
                (source_file env (lower language) w) (program_file env w) primary]
         \<and> (fst (execute_code env code language w) =
               Error_details ''Compiler not found''
                 ''Please install a C/C++ compiler (gcc/g++ or clang/clang++)'' 400) =
             (subprocess_run env 1
                (alternative_command (IS_WINDOWS w) (lower language)
                   (source_file env (lower language) w) (program_file env w) primary) =
              FileNotFoundError)
         \<and> (if IS_WINDOWS w
            then hd (alternative_command (IS_WINDOWS w) (lower language)
                       (source_file env (lower language) w) (program_file env w) primary)
                 \<noteq> hd primary
            else alternative_command (IS_WINDOWS w) (lower language)
                   (source_file env (lower language) w) (program_file env w) primary = primary)"
proof -
  let ?win = "IS_WINDOWS w"
  let ?lang = "lower language"
  let ?src = "source_file env ?lang w"
  let ?prog = "program_file env w"
  let ?alt = "alternative_command ?win ?lang ?src ?prog primary"
  let ?w1 = "w\<lparr>fs := (fs w)(mkdtemp env \<mapsto> Dir, ?src \<mapsto> File)\<rparr>"
  let ?w3 = "?w1\<lparr>run_log := run_log w @ [primary, ?alt]\<rparr>"
  from get_compile_command_Some [OF assms(1)] have lang: "?lang = ''c'' \<or> ?lang = ''cpp''" .
  then have supported: "?lang \<in> set [''python'', ''c'', ''cpp'']" by auto
  have compiled: "compile_program env ?lang (mkdtemp env) ?src [mkdtemp env, ?src] ?w1 =
      after_compile (subprocess_run env 1 ?alt) ?prog [mkdtemp env, ?src] ?w3"
    using assms lang
    by (auto simp: compile_program_def program_file_def Let_def)
  note unfolded = execute_code_supported [OF supported, of env code w,
      folded source_file_def, unfolded compiled]
  have third: "if ?win then hd ?alt \<noteq> hd primary else ?alt = primary"
    using assms(1) lang
    by (auto simp: alternative_command_def get_compile_command_def split: if_splits)
  show ?thesis
  proof (cases "subprocess_run env 1 ?alt")
    case FileNotFoundError
    with unfolded third show ?thesis
      by (simp add: after_compile_def)
  next
    case (RunRaises e)
    with unfolded third show ?thesis
      by (simp add: after_compile_def)
  next
    case (CompletedProcess rc stderr)
    show ?thesis
    proof (cases "rc = 0")
      case False
      with CompletedProcess unfolded third show ?thesis
        by (simp add: after_compile_def)
    next
      case True
      with CompletedProcess unfolded third show ?thesis
        by (simp add: after_compile_def launch_run_log launch_no_details)
    qed
  qed
qed

theorem compile_retried_once_witness:
  "run_log (snd (execute_code quiet ''int main(){}'' ''c'' windows_host)) =
     [[''gcc'', ''/tmp/tmpq7k2'' @ [CHR 0x5C] @ ''code.c'', ''-o'',
       ''/tmp/tmpq7k2'' @ [CHR 0x5C] @ ''program.exe''],
      [''clang'', ''/tmp/tmpq7k2'' @ [CHR 0x5C] @ ''code.c'', ''-o'',
       ''/tmp/tmpq7k2'' @ [CHR 0x5C] @ ''program.exe'']]
   \<and> fst (execute_code quiet ''int main(){}'' ''c'' windows_host) =
       Error_details ''Compiler not found''
         ''Please install a C/C++ compiler (gcc/g++ or clang/clang++)'' 400"
proof -
  have l: "lower ''c'' = ''c''"
    by (simp add: lower_def lower_char_def)
  have h1: "get_compile_command (IS_WINDOWS windows_host)
              (source_file quiet (lower ''c'') windows_host) (lower ''c'')
              (program_file quiet windows_host) =
            Some [''gcc'', ''/tmp/tmpq7k2'' @ [CHR 0x5C] @ ''code.c'', ''-o'',
                  ''/tmp/tmpq7k2'' @ [CHR 0x5C] @ ''program.exe'']"
    by (simp add: l get_compile_command_def source_file_def program_file_def path_join_def
        sep_def get_file_extension_def get_executable_extension_def windows_host_def idle_def
        quiet_def)
  have h2: "subprocess_run quiet 0
              [''gcc'', ''/tmp/tmpq7k2'' @ [CHR 0x5C] @ ''code.c'', ''-o'',
               ''/tmp/tmpq7k2'' @ [CHR 0x5C] @ ''program.exe''] = FileNotFoundError"
    by (simp add: quiet_def)
  from compile_retried_once [OF h1 h2, of "''int main(){}''"] show ?thesis
    by (simp add: l alternative_command_def source_file_def program_file_def path_join_def
        sep_def get_file_extension_def get_executable_extension_def windows_host_def idle_def
        quiet_def)
qed

text \<open>
  C5 as the specification states it fails on a host that is not Windows: with no
  compiler installed, a C program is compiled twice with \<open>clang\<close>; the second run
  names the same compiler as the first, not a different one.
\<close>

theorem compile_retry_same_compiler_counterexample:
  "run_log (snd (execute_code quiet ''int main(){}'' ''c'' idle)) =
     [[''clang'', ''/tmp/tmpq7k2/code.c'', ''-o'', ''/tmp/tmpq7k2/program.out''],
      [''clang'', ''/tmp/tmpq7k2/code.c'', ''-o'', ''/tmp/tmpq7k2/program.out'']]
   \<and> hd (run_log (snd (execute_code quiet ''int main(){}'' ''c'' idle)) ! 1) =
       hd (run_log (snd (execute_code quiet ''int main(){}'' ''c'' idle)) ! 0)
   \<and> fst (execute_code quiet ''int main(){}'' ''c'' idle) =
       Error_details ''Compiler not found''
         ''Please install a C/C++ compiler (gcc/g++ or clang/clang++)'' 400"
  by (simp add: execute_code_def compile_program_def after_compile_def alternative_command_def
      get_compile_command_def get_file_extension_def get_executable_extension_def
      path_join_def sep_def quiet_def idle_def lower_def lower_char_def Let_def)

end
